theory Spec2Isabelle
  imports Complex_Main "HOL-Library.Word" "HOL-Library.Finite_Map"
begin

section \<open>The task executor of the cloud task manager\<close>

text \<open>
  A shallow embedding of the executor (package \<open>manager\<close>): the worker pool
  (\<open>workers\<close>, \<open>addJob\<close>, \<open>endJob\<close>), the node command builder
  (\<open>initMessage\<close>, \<open>initHistoryMessage\<close>), the completion handler
  (\<open>dealCompletedNode\<close>, the closure of \<open>Executor.start\<close>), the stage
  initialisation (\<open>initWorker\<close>), the timeout watcher (\<open>handelTimeOutJob\<close>)
  and the scheduling loop of \<open>Executor.start\<close>.

  Go errors are their message (a \<open>string\<close>); a function returning \<open>error\<close>
  returns \<open>string option\<close>, \<open>None\<close> being \<open>nil\<close>. A run-time panic (a failed
  type assertion, a nil dereference, an index out of range) is the value \<open>Panics\<close>.
  Mutation is explicit state passing over the record \<open>exec_state\<close>.
\<close>

subsection \<open>Data\<close>

datatype 'a go = Panics | Returns 'a

text \<open>\<open>v1alpha1.TaskStatus\<close>; \<open>api.State\<close> and \<open>api.Action\<close> are string types.\<close>

record TaskStatus =
  NodeName :: string
  State :: string
  Event :: string
  Action :: string
  Time :: string
  Reason :: string

text \<open>\<open>fsm.Event\<close>, as the executor fills it.\<close>

record fsm_Event =
  EventType :: string
  EventAction :: string
  EventErrorMsg :: string

text \<open>\<open>commontypes.NodeUpgradeJobRequest\<close>: the fields the executor reads and writes.\<close>

record NodeUpgradeJobRequest =
  UpgradeID :: string
  HistoryID :: string
  UpgradeTool :: string
  Version :: string
  Image :: string

text \<open>
  The task payload \<open>TaskMessage.Msg\<close> is an \<open>interface{}\<close>: its dynamic type is
  \<open>NodeUpgradeJobRequest\<close> or something else, which the executor only forwards.
\<close>

datatype TaskMsg = UpgradeJobRequest NodeUpgradeJobRequest | OtherRequest string

text \<open>\<open>NodeTaskRequest.Item\<close>: the task payload, or \<open>NodePreCheckRequest{CheckItem}\<close>.\<close>

datatype Item = ItemMsg TaskMsg | NodePreCheckRequest "string list"

text \<open>The body of a node command: \<open>commontypes.NodeTaskRequest\<close> or the legacy request.\<close>

datatype Body =
    NodeTaskRequest (TaskID: string) (ReqType: string) (ReqState: string) (ReqItem: Item)
  | LegacyRequest NodeUpgradeJobRequest

text \<open>
  \<open>model.Message\<close>: the router that \<open>BuildRouter\<close> fills and the content that
  \<open>FillBody\<close> sets. The header that \<open>model.NewMessage\<close> generates (message
  identifier, timestamp) is not part of the model.
\<close>

record Message =
  Source :: string
  Group :: string
  Resource :: string
  Operation :: string
  Content :: Body

text \<open>
  \<open>util.TaskMessage\<close>. \<open>Concurrency\<close> is an \<open>int32\<close>, \<open>TimeOutSeconds\<close> a
  \<open>*uint32\<close> (\<open>None\<close> is the nil pointer), \<open>FailureTolerate\<close> a finite \<open>float64\<close>,
  taken as the real number it denotes (the spec's tolerance is a real in [0,1];
  the infinities and NaN are not modelled).
\<close>

record TaskMessage =
  Type :: string
  Name :: string
  Concurrency :: "32 word"
  TimeOutSeconds :: "32 word option"
  FailureTolerate :: real
  CheckItem :: "string list"
  Msg :: TaskMsg
  ShutDown :: bool
  Status :: TaskStatus

text \<open>
  \<open>controller.Controller\<close>, an interface implemented outside this file: the
  answers of the methods the executor calls. \<open>Inl\<close> is the error of a
  \<open>(value, error)\<close> result. \<open>isNodeUpgradeController\<close> tells whether the
  dynamic type is \<open>*nodeupgradecontroller.NodeUpgradeController\<close>.
\<close>

record Controller =
  isNodeUpgradeController :: bool
  StageCompleted :: "string \<Rightarrow> string \<Rightarrow> bool"
  ReportTaskStatus :: "string \<Rightarrow> fsm_Event \<Rightarrow> string + string"
  ReportNodeStatus :: "string \<Rightarrow> string \<Rightarrow> fsm_Event \<Rightarrow> string + string"
  GetNodeVersion :: "string \<Rightarrow> string + string"

text \<open>The immutable part of \<open>Executor\<close>; the node slice is in \<open>exec_state\<close>.\<close>

record Executor =
  task :: TaskMessage
  controller :: Controller

text \<open>
  Constants and helpers of packages that are not in this file (\<open>api\<close>, \<open>fsm\<close>,
  \<open>constants\<close>, \<open>modules\<close>, \<open>util\<close>, \<open>uuid\<close>, \<open>wait\<close>), taken as parameters.
  \<open>uuidNew k\<close> is the string \<open>uuid.New().String()\<close> returns when \<open>k\<close> node
  commands have been sent; \<open>ErrWaitTimeout\<close> is the message of the error
  \<open>wait.Poll\<close> returns at its deadline; \<open>pollCount d\<close> is the number of times
  \<open>wait.Poll\<close>, polling once per second, runs its condition before a deadline of
  \<open>d\<close> seconds, for \<open>d\<close> that is not zero.
\<close>

record env =
  TaskFailed :: string
  TaskChecking :: string
  ActionFailure :: string
  ActionSuccess :: string
  TaskFinish :: "string \<Rightarrow> bool"
  ResourceSep :: string
  TaskManagerModuleName :: string
  TaskManagerModuleGroup :: string
  NodeUpgradeJobControllerModuleName :: string
  NodeUpgradeJobControllerModuleGroup :: string
  VersionLess :: "string \<Rightarrow> string \<Rightarrow> string + bool"
  uuidNew :: "nat \<Rightarrow> string"
  ErrWaitTimeout :: string
  pollCount :: "nat \<Rightarrow> nat"

text \<open>Modelled from the spec: the constant \<open>util.TaskUpgrade\<close>, the task tag "upgrade".\<close>

definition TaskUpgrade :: string where
  "TaskUpgrade = ''upgrade''"

text \<open>The worker pool. \<open>jobs\<close> is a Go map, hence finite; \<open>len\<close> is its size.\<close>

record workers =
  number :: int
  jobs :: "(string, nat) fmap"
  shuttingDown :: bool

definition len :: "('k, 'v) fmap \<Rightarrow> nat" where
  "len m = fcard (fmdom m)"

text \<open>
  What \<open>Executor.start\<close> and the functions it calls mutate or emit: the node
  slice \<open>e.nodes\<close>, the cursor \<open>index\<close>, the set \<open>failedNodes\<close> (a
  \<open>map[string]bool\<close> that only ever stores \<open>true\<close>), the pool, the messages sent
  to \<open>downStreamChan\<close> (oldest first), the indices the timeout watchers were
  spawned with, and the events passed to \<open>ReportTaskStatus\<close>.
\<close>

record exec_state =
  nodes :: "TaskStatus list"
  index :: nat
  failedNodes :: "string fset"
  worker :: workers
  downStream :: "Message list"
  watchers :: "nat list"
  taskReports :: "(string \<times> fsm_Event) list"

subsection \<open>Formatting\<close>

text \<open>The verbs \<open>%d\<close> and \<open>%v\<close> of \<open>fmt\<close> on an \<open>int\<close>: decimal digits.\<close>

fun digits :: "nat \<Rightarrow> string" where
  "digits n = (if n < 10 then [''0123456789'' ! n]
               else digits (n div 10) @ [''0123456789'' ! (n mod 10)])"

declare digits.simps [simp del]

definition Itoa :: "int \<Rightarrow> string" where
  "Itoa i = (if i < 0 then ''-'' @ digits (nat (- i)) else digits (nat i))"

text \<open>
  The \<open>float64\<close> product. A finite \<open>float64\<close> is the real it denotes, and the
  product of two of them is their exact product rounded to the nearest
  \<open>float64\<close>, ties to the even significand (IEEE 754 binary64: 53 significant
  bits, exponents from -1022 to 1023, subnormals below). \<open>exponent64 a\<close> is the
  binary exponent of \<open>a > 0\<close>, kept inside that range; \<open>ulp64\<close> is the spacing
  of the \<open>float64\<close> values at an exponent. A rounded value of \<open>2 ^ 1024\<close> or
  more stands for the infinity the product overflows to: it is only ever
  compared with a count of nodes, which is below both.
\<close>

function expo_up :: "real \<Rightarrow> int \<Rightarrow> int" where
  "expo_up a k = (if a < 2 \<or> 1023 \<le> k then k else expo_up (a / 2) (k + 1))"
  by pat_completeness auto
termination
  by (relation "measure (\<lambda>(a, k). nat (1023 - k))") auto

function expo_down :: "real \<Rightarrow> int \<Rightarrow> int" where
  "expo_down a k = (if 1 \<le> a \<or> k \<le> - 1022 then k else expo_down (2 * a) (k - 1))"
  by pat_completeness auto
termination
  by (relation "measure (\<lambda>(a, k). nat (k + 1022))") auto

declare expo_up.simps [simp del] expo_down.simps [simp del]

definition exponent64 :: "real \<Rightarrow> int" where
  "exponent64 a = (if 1 \<le> a then expo_up a 0 else expo_down a 0)"

definition ulp64 :: "int \<Rightarrow> real" where
  "ulp64 k = (if 52 \<le> k then 2 ^ nat (k - 52) else 1 / 2 ^ nat (52 - k))"

definition roundEven :: "real \<Rightarrow> int" where
  "roundEven q = (let f = \<lfloor>q\<rfloor>; d = q - of_int f in
     if d < 1 / 2 then f else if 1 / 2 < d then f + 1 else if even f then f else f + 1)"

definition round64 :: "real \<Rightarrow> real" where
  "round64 x = (if x = 0 then 0
     else (let u = ulp64 (exponent64 \<bar>x\<bar>) in of_int (roundEven (x / u)) * u))"

definition mul64 :: "real \<Rightarrow> real \<Rightarrow> real" where
  "mul64 a b = round64 (a * b)"

text \<open>\<open>strings.Join\<close>.\<close>

fun Join :: "string list \<Rightarrow> string \<Rightarrow> string" where
  "Join [] sep = []"
| "Join [x] sep = x"
| "Join (x # y # ys) sep = x @ sep @ Join (y # ys) sep"

subsection \<open>Node commands\<close>

definition buildTaskResource :: "env \<Rightarrow> string \<Rightarrow> string \<Rightarrow> string \<Rightarrow> string" where
  "buildTaskResource c tsk taskID nodeID = Join [tsk, taskID, ''node'', nodeID] (ResourceSep c)"

definition buildUpgradeResource :: "env \<Rightarrow> string \<Rightarrow> string \<Rightarrow> string" where
  "buildUpgradeResource c upgradeID nodeID =
     Join [TaskUpgrade, upgradeID, ''node'', nodeID] (ResourceSep c)"

text \<open>
  \<open>initHistoryMessage\<close>: \<open>Returns None\<close> is the nil message. The two type
  assertions come first and panic when they fail. \<open>uuid\<close> is the string
  \<open>uuid.New().String()\<close> gives at this call.
\<close>

definition initHistoryMessage :: "env \<Rightarrow> Executor \<Rightarrow> string \<Rightarrow> TaskStatus \<Rightarrow> Message option go" where
  "initHistoryMessage c e uuid node =
     (let resource = buildUpgradeResource c (Name (task e)) (NodeName node) in
      case Msg (task e) of
        OtherRequest x \<Rightarrow> Panics
      | UpgradeJobRequest req \<Rightarrow>
          if \<not> isNodeUpgradeController (controller e) then Panics
          else
            (case GetNodeVersion (controller e) (NodeName node) of
               Inl err \<Rightarrow> Returns None
             | Inr edgeVersion \<Rightarrow>
                 (case VersionLess c edgeVersion ''v1.16.0'' of
                    Inl err \<Rightarrow> Returns None
                  | Inr lt \<Rightarrow>
                      if \<not> lt then Returns None
                      else
                        (let upgradeReq = \<lparr>UpgradeID = Name (task e), HistoryID = uuid,
                                          UpgradeTool = ''keadm'', Version = Version req,
                                          Image = Image req\<rparr>
                         in Returns (Some
                              \<lparr>Source = NodeUpgradeJobControllerModuleName c,
                               Group = NodeUpgradeJobControllerModuleGroup c,
                               Resource = resource, Operation = TaskUpgrade,
                               Content = LegacyRequest upgradeReq\<rparr>)))))"

text \<open>The current-format message, the part of \<open>initMessage\<close> after the legacy attempt.\<close>

definition taskMessage :: "env \<Rightarrow> Executor \<Rightarrow> TaskStatus \<Rightarrow> Message" where
  "taskMessage c e node =
     (let resource = buildTaskResource c (Type (task e)) (Name (task e)) (NodeName node);
          item = (if State node = TaskChecking c then NodePreCheckRequest (CheckItem (task e))
                  else ItemMsg (Msg (task e)))
      in \<lparr>Source = TaskManagerModuleName c, Group = TaskManagerModuleGroup c,
          Resource = resource, Operation = TaskUpgrade,
          Content = NodeTaskRequest (Name (task e)) (Type (task e)) (State node) item\<rparr>)"

definition initMessage :: "env \<Rightarrow> Executor \<Rightarrow> string \<Rightarrow> TaskStatus \<Rightarrow> Message go" where
  "initMessage c e uuid node =
     (if Type (task e) = TaskUpgrade then
        (case initHistoryMessage c e uuid node of
           Panics \<Rightarrow> Panics
         | Returns (Some msg) \<Rightarrow> Returns msg
         | Returns None \<Rightarrow> Returns (taskMessage c e node))
      else Returns (taskMessage c e node))"

subsection \<open>The worker pool\<close>

text \<open>
  \<open>addJob\<close>: the insertion happens before the message is built, so a panic of
  \<open>initMessage\<close> comes after it; a panic ends the process and leaves no state.
\<close>

definition addJob :: "env \<Rightarrow> Executor \<Rightarrow> TaskStatus \<Rightarrow> nat \<Rightarrow> exec_state \<Rightarrow> (string option \<times> exec_state) go" where
  "addJob c e node i st =
     (let w = worker st in
      if shuttingDown w then Returns (Some ''workers is stopped'', st)
      else if number w \<le> int (len (jobs w)) then
        Returns (Some (''workers are all running, '' @ Itoa (int (len (jobs w))) @ ''/'' @ Itoa (number w)), st)
      else
        (let st1 = st\<lparr>worker := w\<lparr>jobs := fmupd (NodeName node) i (jobs w)\<rparr>\<rparr> in
         case initMessage c e (uuidNew c (length (downStream st1))) node of
           Panics \<Rightarrow> Panics
         | Returns msg \<Rightarrow>
             Returns (None, st1\<lparr>watchers := watchers st1 @ [i],
                               downStream := downStream st1 @ [msg]\<rparr>)))"

text \<open>
  \<open>endJob\<close>: on a missing key the Go map read gives the zero index and the
  error; otherwise the entry is deleted.
\<close>

definition endJob :: "string \<Rightarrow> exec_state \<Rightarrow> (nat \<times> string option) \<times> exec_state" where
  "endJob job st =
     (let w = worker st in
      case fmlookup (jobs w) job of
        None \<Rightarrow> ((0, Some (''end job '' @ job @ '' error, job not exist'')), st)
      | Some i \<Rightarrow> ((i, None), st\<lparr>worker := w\<lparr>jobs := fmdrop job (jobs w)\<rparr>\<rparr>))"

subsection \<open>The completion handler\<close>

text \<open>
  \<open>dealCompletedNode\<close>, the closure of \<open>Executor.start\<close>; \<open>maxFailed\<close> is the
  \<open>float64\<close> \<open>maxFailedNodes\<close> it captures. \<open>float64(len(failedNodes))\<close> is exact.
\<close>

definition dealCompletedNode :: "env \<Rightarrow> Executor \<Rightarrow> real \<Rightarrow> TaskStatus \<Rightarrow> exec_state \<Rightarrow> string option \<times> exec_state" where
  "dealCompletedNode c e maxFailed node st =
     (let st1 = (if State node = TaskFailed c
                 then st\<lparr>failedNodes := finsert (NodeName node) (failedNodes st)\<rparr> else st)
      in
      if real (fcard (failedNodes st1)) < maxFailed then (None, st1)
      else
        (let st2 = st1\<lparr>worker := (worker st1)\<lparr>shuttingDown := True\<rparr>\<rparr> in
         if 0 < len (jobs (worker st2)) then (None, st2)
         else
           (let errMsg = ''the number of failed nodes is '' @ Itoa (int (fcard (failedNodes st2)))
                   @ ''/'' @ Itoa (int (length (nodes st2)))
                   @ '', which exceeds the failure tolerance threshold.'';
                ev = \<lparr>EventType = Event node, EventAction = Action node, EventErrorMsg = errMsg\<rparr>;
                st3 = st2\<lparr>taskReports := taskReports st2 @ [(Name (task e), ev)]\<rparr>
            in case ReportTaskStatus (controller e) (Name (task e)) ev of
                 Inl err \<Rightarrow> (Some (errMsg @ '', report status failed, '' @ err), st3)
               | Inr s \<Rightarrow> (Some errMsg, st3))))"

definition completedTaskStage :: "env \<Rightarrow> Executor \<Rightarrow> TaskStatus \<Rightarrow> exec_state \<Rightarrow> (string + string) \<times> exec_state" where
  "completedTaskStage c e node st =
     (let ev = \<lparr>EventType = Event node, EventAction = ActionSuccess c, EventErrorMsg = []\<rparr> in
      (ReportTaskStatus (controller e) (Name (task e)) ev,
       st\<lparr>taskReports := taskReports st @ [(Name (task e), ev)]\<rparr>))"

text \<open>
  Two parts of \<open>dealCompletedNode\<close>, named for the statements below: the set
  \<open>failedNodes\<close> after its first statement, and the message \<open>errMsg\<close> for
  \<open>k\<close> failed nodes out of \<open>n\<close>.
\<close>

definition failedAfter :: "env \<Rightarrow> TaskStatus \<Rightarrow> exec_state \<Rightarrow> string fset" where
  "failedAfter c node st =
     (if State node = TaskFailed c then finsert (NodeName node) (failedNodes st) else failedNodes st)"


subsection \<open>Stage initialisation\<close>

text \<open>
  The \<open>for index, node = range e.nodes\<close> loop of \<open>initWorker\<close>. \<open>idx\<close> is the
  value of the variable \<open>index\<close> before the iteration, \<open>k\<close> the position of the
  head of the remaining nodes; each iteration assigns \<open>k\<close> to \<open>index\<close>. The
  result is \<open>(index, isEndNode, err)\<close>: \<open>err\<close> is set by the early
  \<open>return 0, err\<close>.
\<close>

fun rangeNodes :: "env \<Rightarrow> Executor \<Rightarrow> (TaskStatus \<Rightarrow> exec_state \<Rightarrow> string option \<times> exec_state) \<Rightarrow>
    nat \<Rightarrow> nat \<Rightarrow> TaskStatus list \<Rightarrow> exec_state \<Rightarrow> ((nat \<times> bool \<times> string option) \<times> exec_state) go" where
  "rangeNodes c e deal idx k [] st = Returns ((idx, True, None), st)"
| "rangeNodes c e deal idx k (node # rest) st =
     (if StageCompleted (controller e) (Name (task e)) (State node) then
        (case deal node st of
           (Some err, st') \<Rightarrow> Returns ((0, True, Some err), st')
         | (None, st') \<Rightarrow> rangeNodes c e deal k (Suc k) rest st')
      else
        (case addJob c e node k st of
           Panics \<Rightarrow> Panics
         | Returns (Some err, st') \<Rightarrow> Returns ((k, False, None), st')
         | Returns (None, st') \<Rightarrow> rangeNodes c e deal k (Suc k) rest st'))"

definition initWorker :: "env \<Rightarrow> Executor \<Rightarrow> (TaskStatus \<Rightarrow> exec_state \<Rightarrow> string option \<times> exec_state) \<Rightarrow>
    exec_state \<Rightarrow> ((nat \<times> string option) \<times> exec_state) go" where
  "initWorker c e deal st =
     (case rangeNodes c e deal 0 0 (nodes st) st of
        Panics \<Rightarrow> Panics
      | Returns ((idx, isEndNode, Some err), st') \<Rightarrow> Returns ((0, Some err), st')
      | Returns ((idx, isEndNode, None), st') \<Rightarrow>
          Returns ((if isEndNode then idx + 1 else idx, None), st'))"

subsection \<open>The timeout watcher\<close>

text \<open>
  \<open>wait.Poll(interval, timeout, condition)\<close> is outside the repository. It runs
  the condition once per interval and returns \<open>nil\<close> at the first run that
  holds. With a timeout that is not zero it gives up at the deadline and
  returns its timeout error; a timeout of zero means no deadline: it polls
  until the condition holds, forever if it never does.

  \<open>reads k\<close> is the value the \<open>k\<close>-th run of the condition reads.
  \<open>poll_forever\<close> is the poll without a deadline: the number of the first run
  that holds, \<open>None\<close> when the poll never returns. \<open>poll_deadline\<close> is the
  poll over the runs made before a deadline. The result of \<open>wait_Poll\<close> is
  \<open>None\<close> when it never returns and the returned \<open>error\<close> otherwise.
\<close>

partial_function (option) poll_forever :: "('a \<Rightarrow> bool) \<Rightarrow> (nat \<Rightarrow> 'a) \<Rightarrow> nat \<Rightarrow> nat option" where
  "poll_forever condition reads k =
     (if condition (reads k) then Some k else poll_forever condition reads (Suc k))"

fun poll_deadline :: "env \<Rightarrow> ('a \<Rightarrow> bool) \<Rightarrow> 'a list \<Rightarrow> string option" where
  "poll_deadline c condition [] = Some (ErrWaitTimeout c)"
| "poll_deadline c condition (x # xs) = (if condition x then None else poll_deadline c condition xs)"

definition wait_Poll :: "env \<Rightarrow> nat \<Rightarrow> ('a \<Rightarrow> bool) \<Rightarrow> (nat \<Rightarrow> 'a) \<Rightarrow> string option option" where
  "wait_Poll c timeout condition reads =
     (if timeout = 0 then
        (case poll_forever condition reads 0 of None \<Rightarrow> None | Some k \<Rightarrow> Some None)
      else Some (poll_deadline c condition (map reads [0..<pollCount c timeout])))"

text \<open>
  The deadline \<open>time.Duration(*e.task.TimeOutSeconds)*time.Second\<close> handed to
  \<open>wait.Poll\<close>, in seconds; dereferencing the nil pointer panics.
\<close>

definition pollTimeout :: "TaskMessage \<Rightarrow> nat go" where
  "pollTimeout t = (case TimeOutSeconds t of None \<Rightarrow> Panics | Some s \<Rightarrow> Returns (unat s))"

text \<open>
  \<open>handelTimeOutJob\<close> runs beside the scheduling loop and reads \<open>e.nodes[index]\<close>
  as the loop writes it. \<open>st\<close> is the state when the watcher starts,
  \<open>reads k\<close> the value of \<open>e.nodes[index]\<close> that the \<open>k\<close>-th poll reads,
  \<open>final\<close> its value when the event is built. The result is \<open>None\<close> when the
  watcher never returns (it stays in \<open>wait.Poll\<close> and has called nothing), and
  otherwise the list of its calls to \<open>ReportNodeStatus\<close> (task, node, event)
  with the state it leaves.
\<close>

definition handelTimeOutJob :: "env \<Rightarrow> Executor \<Rightarrow> nat \<Rightarrow> exec_state \<Rightarrow> (nat \<Rightarrow> TaskStatus) \<Rightarrow> TaskStatus \<Rightarrow>
    ((string \<times> string \<times> fsm_Event) list \<times> exec_state) go option" where
  "handelTimeOutJob c e i st reads final =
     (if length (nodes st) \<le> i then Some Panics
      else
        (let lastState = State (nodes st ! i) in
         case pollTimeout (task e) of
           Panics \<Rightarrow> Some Panics
         | Returns d \<Rightarrow>
             (case wait_Poll c d (\<lambda>node. lastState \<noteq> State node \<or> TaskFinish c (State node)) reads of
                None \<Rightarrow> None
              | Some None \<Rightarrow> Some (Returns ([], st))
              | Some (Some err) \<Rightarrow>
                  Some (Returns ([(Name (task e), NodeName final,
                             \<lparr>EventType = ''TimeOut'', EventAction = ActionFailure c,
                              EventErrorMsg = ''node task execution timeout, '' @ err\<rparr>)], st)))))"

subsection \<open>The scheduling loop\<close>

text \<open>How one turn of the \<open>for\<close>/\<open>select\<close> loop of \<open>Executor.start\<close> ends.\<close>

datatype flow = Continue | Stopped | TaskFinished | InitFailed

text \<open>\<open>v1alpha1.TaskStatus{}\<close>.\<close>

definition emptyStatus :: TaskStatus where
  "emptyStatus = \<lparr>NodeName = [], State = [], Event = [], Action = [], Time = [], Reason = []\<rparr>"

text \<open>
  The body of \<open>case status := <-e.statusChan\<close>; \<open>None\<close> is a nil pointer.
  \<open>TaskFinished\<close> is \<open>DeleteExecutor(e.task)\<close> followed by \<open>return\<close>.
\<close>

definition handleStatus :: "env \<Rightarrow> Executor \<Rightarrow> real \<Rightarrow> TaskStatus option \<Rightarrow> exec_state \<Rightarrow> (flow \<times> exec_state) go" where
  "handleStatus c e maxFailed status st =
     (case status of
        None \<Rightarrow> Returns (Continue, st)
      | Some s \<Rightarrow>
          if s = emptyStatus then Returns (Continue, st)
          else if \<not> StageCompleted (controller e) (Name (task e)) (State s) then Returns (Continue, st)
          else
            (case endJob (NodeName s) st of
               ((endNode, Some err), st1) \<Rightarrow> Returns (Continue, st1)
             | ((endNode, None), st1) \<Rightarrow>
                 if length (nodes st1) \<le> endNode then Panics
                 else
                   (let st2 = st1\<lparr>nodes := (nodes st1)[endNode := s]\<rparr> in
                    case dealCompletedNode c e maxFailed s st2 of
                      (Some err, st3) \<Rightarrow> Returns (Continue, st3)
                    | (None, st3) \<Rightarrow>
                        if length (nodes st3) \<le> index st3 then
                          (if len (jobs (worker st3)) \<noteq> 0 then Returns (Continue, st3)
                           else
                             (case completedTaskStage c e s st3 of
                                (Inl err, st4) \<Rightarrow> Returns (Continue, st4)
                              | (Inr state, st4) \<Rightarrow>
                                  if TaskFinish c state then Returns (TaskFinished, st4)
                                  else
                                    (case initWorker c e (dealCompletedNode c e maxFailed) st4 of
                                       Panics \<Rightarrow> Panics
                                     | Returns ((i, err), st5) \<Rightarrow>
                                         Returns (Continue, st5\<lparr>index := i\<rparr>))))
                        else
                          (let nextNode = nodes st3 ! index st3 in
                           case addJob c e nextNode (index st3) st3 of
                             Panics \<Rightarrow> Panics
                           | Returns (Some err, st4) \<Rightarrow> Returns (Continue, st4)
                           | Returns (None, st4) \<Rightarrow>
                               Returns (Continue, st4\<lparr>index := index st4 + 1\<rparr>)))))"

text \<open>
  What the loop receives: \<open>beehiveContext.Done()\<close> or a status report. The loop
  runs over the events received so far; \<open>Continue\<close> at the end of the list is
  the loop waiting in \<open>select\<close>.
\<close>

datatype event = Done | StatusReport "TaskStatus option"

fun loop :: "env \<Rightarrow> Executor \<Rightarrow> real \<Rightarrow> event list \<Rightarrow> exec_state \<Rightarrow> (flow \<times> exec_state) go" where
  "loop c e maxFailed [] st = Returns (Continue, st)"
| "loop c e maxFailed (Done # evs) st = Returns (Stopped, st)"
| "loop c e maxFailed (StatusReport status # evs) st =
     (case handleStatus c e maxFailed status st of
        Panics \<Rightarrow> Panics
      | Returns (Continue, st') \<Rightarrow> loop c e maxFailed evs st'
      | Returns (f, st') \<Rightarrow> Returns (f, st'))"

text \<open>The state \<open>Executor.start\<close> begins with, for the node slice \<open>ns\<close>.\<close>

definition newWorkers :: "Executor \<Rightarrow> workers" where
  "newWorkers e = \<lparr>number = sint (Concurrency (task e)), jobs = fmempty, shuttingDown = False\<rparr>"

definition initState :: "Executor \<Rightarrow> TaskStatus list \<Rightarrow> exec_state" where
  "initState e ns = \<lparr>nodes = ns, index = 0, failedNodes = {||}, worker = newWorkers e,
                     downStream = [], watchers = [], taskReports = []\<rparr>"

text \<open>
  \<open>maxFailedNodes := float64(len(e.nodes)) * (e.task.FailureTolerate)\<close>. The
  conversion of the length is exact: a slice of \<open>TaskStatus\<close> has far fewer
  than \<open>2 ^ 53\<close> elements.
\<close>

definition maxFailedNodes :: "Executor \<Rightarrow> TaskStatus list \<Rightarrow> real" where
  "maxFailedNodes e ns = mul64 (real (length ns)) (FailureTolerate (task e))"

definition start :: "env \<Rightarrow> Executor \<Rightarrow> TaskStatus list \<Rightarrow> event list \<Rightarrow> (flow \<times> exec_state) go" where
  "start c e ns evs =
     (let m = maxFailedNodes e ns in
      case initWorker c e (dealCompletedNode c e m) (initState e ns) of
        Panics \<Rightarrow> Panics
      | Returns ((i, Some err), st) \<Rightarrow> Returns (InitFailed, st\<lparr>index := i\<rparr>)
      | Returns ((i, None), st) \<Rightarrow> loop c e m evs (st\<lparr>index := i\<rparr>))"

subsection \<open>Sequences of pool operations\<close>

text \<open>
  The three ways the executor touches the pool: \<open>addJob\<close>, \<open>endJob\<close>, and the
  assignment \<open>worker.shuttingDown = true\<close> of the completion handler.
\<close>

datatype pool_op = AddJob TaskStatus nat | EndJob string | ShutDownPool

fun pool_ops :: "env \<Rightarrow> Executor \<Rightarrow> pool_op list \<Rightarrow> exec_state \<Rightarrow> exec_state go" where
  "pool_ops c e [] st = Returns st"
| "pool_ops c e (AddJob node i # ops) st =
     (case addJob c e node i st of
        Panics \<Rightarrow> Panics
      | Returns (r, st') \<Rightarrow> pool_ops c e ops st')"
| "pool_ops c e (EndJob job # ops) st = pool_ops c e ops (snd (endJob job st))"
| "pool_ops c e (ShutDownPool # ops) st =
     pool_ops c e ops (st\<lparr>worker := (worker st)\<lparr>shuttingDown := True\<rparr>\<rparr>)"

text \<open>
  A state of a pool without capacity in which nothing has been admitted: no
  job is in flight, no message has been sent and no watcher spawned.
\<close>

definition noCapacity :: "exec_state \<Rightarrow> bool" where
  "noCapacity st \<longleftrightarrow> number (worker st) \<le> 0 \<and> jobs (worker st) = fmempty
     \<and> downStream st = [] \<and> watchers st = []"


subsection \<open>A concrete executor\<close>

text \<open>
  An environment, a controller, tasks and nodes on which the functions are
  evaluated: the stage is complete in the states \<open>Successful\<close> and \<open>Failed\<close>,
  node \<open>old\<close> runs version \<open>v1.15.0\<close>, the version of node \<open>lost\<close> is unknown
  and that of node \<open>odd\<close> does not parse.
\<close>

definition exEnv :: env where
  "exEnv = \<lparr>TaskFailed = ''Failed'', TaskChecking = ''Checking'',
            ActionFailure = ''Failure'', ActionSuccess = ''Success'',
            TaskFinish = (\<lambda>s. s = ''Successful'' \<or> s = ''Failed''),
            ResourceSep = ''/'',
            TaskManagerModuleName = ''taskmanager'', TaskManagerModuleGroup = ''taskmanager'',
            NodeUpgradeJobControllerModuleName = ''nodeupgradejobcontroller'',
            NodeUpgradeJobControllerModuleGroup = ''nodeupgradejobcontroller'',
            VersionLess = (\<lambda>a b. if a = ''vx'' then Inl ''invalid version'' else Inr (a = ''v1.15.0'')),
            uuidNew = (\<lambda>k. ''id-'' @ digits k),
            ErrWaitTimeout = ''timed out waiting for the condition'',
            pollCount = (\<lambda>d. d)\<rparr>"

definition exController :: Controller where
  "exController = \<lparr>isNodeUpgradeController = True,
                   StageCompleted = (\<lambda>name s. s = ''Successful'' \<or> s = ''Failed''),
                   ReportTaskStatus = (\<lambda>name ev. Inr (if EventAction ev = ''Success'' then ''Successful'' else ''Failed'')),
                   ReportNodeStatus = (\<lambda>name node ev. Inr ''Failed''),
                   GetNodeVersion = (\<lambda>node. if node = ''lost'' then Inl ''not found''
                                            else if node = ''odd'' then Inr ''vx''
                                            else if node = ''old'' then Inr ''v1.15.0''
                                            else Inr ''v1.17.0'')\<rparr>"

definition exRequest :: NodeUpgradeJobRequest where
  "exRequest = \<lparr>UpgradeID = [], HistoryID = [], UpgradeTool = [], Version = ''v1.17.0'',
                Image = ''kubeedge/installation-package''\<rparr>"

definition exTask :: "string \<Rightarrow> 32 word \<Rightarrow> 32 word option \<Rightarrow> real \<Rightarrow> TaskMessage" where
  "exTask ty conc tmo tol = \<lparr>Type = ty, Name = ''job'', Concurrency = conc, TimeOutSeconds = tmo,
       FailureTolerate = tol, CheckItem = [''cpu''], Msg = UpgradeJobRequest exRequest,
       ShutDown = False, Status = emptyStatus\<rparr>"

definition exExecutor :: "string \<Rightarrow> 32 word \<Rightarrow> 32 word option \<Rightarrow> real \<Rightarrow> Executor" where
  "exExecutor ty conc tmo tol = \<lparr>task = exTask ty conc tmo tol, controller = exController\<rparr>"

definition exNode :: "string \<Rightarrow> string \<Rightarrow> TaskStatus" where
  "exNode name s = \<lparr>NodeName = name, State = s, Event = ''Upgrade'', Action = ''Success'',
                     Time = [], Reason = []\<rparr>"

section \<open>Properties\<close>

subsection \<open>Evaluation on the concrete executor\<close>

lemmas ex_defs = exEnv_def exController_def exRequest_def exTask_def exExecutor_def exNode_def
  emptyStatus_def TaskUpgrade_def initState_def newWorkers_def

lemmas round64_eval = mul64_def round64_def exponent64_def ulp64_def roundEven_def
  expo_up.simps expo_down.simps

lemmas scan_defs = initWorker_def dealCompletedNode_def maxFailedNodes_def round64_eval

lemmas run_defs = addJob_def endJob_def initMessage_def initHistoryMessage_def taskMessage_def
  buildTaskResource_def buildUpgradeResource_def Let_def len_def fcard_finsert_if fcard_fempty

subsection \<open>The worker pool\<close>

lemma len_fmupd_le: "len (fmupd k v m) \<le> Suc (len m)"
  by (simp add: len_def fcard_finsert_if)

lemma len_fmdrop_le: "len (fmdrop k m) \<le> len m"
  by (simp add: len_def fcard_fminus1_le)

lemma len_fmempty: "len fmempty = 0"
  by (simp add: len_def)

lemma addJob_worker:
  assumes "addJob c e node i st = Returns (r, st')"
  shows "number (worker st') = number (worker st)"
    and "shuttingDown (worker st') = shuttingDown (worker st)"
    and "r \<noteq> None \<Longrightarrow> st' = st"
    and "r = None \<Longrightarrow> jobs (worker st') = fmupd (NodeName node) i (jobs (worker st))"
    and "r = None \<Longrightarrow> int (len (jobs (worker st))) < number (worker st) \<and> \<not> shuttingDown (worker st)"
  using assms by (auto simp: addJob_def Let_def split: if_splits go.splits)

lemma addJob_bounded:
  assumes "addJob c e node i st = Returns (r, st')"
    and "int (len (jobs (worker st))) \<le> number (worker st)"
  shows "int (len (jobs (worker st'))) \<le> number (worker st')"
proof (cases r)
  case None
  with assms(1) have j: "jobs (worker st') = fmupd (NodeName node) i (jobs (worker st))"
    and lt: "int (len (jobs (worker st))) < number (worker st)"
    and n: "number (worker st') = number (worker st)"
    by (simp_all add: addJob_worker)
  have "len (jobs (worker st')) \<le> Suc (len (jobs (worker st)))"
    unfolding j by (rule len_fmupd_le)
  with lt n show ?thesis by linarith
next
  case (Some err)
  with assms(1) have "st' = st" by (simp add: addJob_worker)
  with assms(2) show ?thesis by simp
qed

lemma endJob_worker:
  "number (worker (snd (endJob job st))) = number (worker st)"
  "shuttingDown (worker (snd (endJob job st))) = shuttingDown (worker st)"
  "len (jobs (worker (snd (endJob job st)))) \<le> len (jobs (worker st))"
  by (auto simp: endJob_def Let_def len_fmdrop_le split: option.splits)

lemma pool_ops_bounded:
  "pool_ops c e ops st = Returns st' \<Longrightarrow> int (len (jobs (worker st))) \<le> number (worker st) \<Longrightarrow>
   int (len (jobs (worker st'))) \<le> number (worker st') \<and> number (worker st') = number (worker st)"
proof (induction c e ops st rule: pool_ops.induct)
  case (1 c e st)
  then show ?case by simp
next
  case (2 c e node i ops st)
  from "2.prems"(1) obtain r st1 where a: "addJob c e node i st = Returns (r, st1)"
    and p: "pool_ops c e ops st1 = Returns st'"
    by (auto split: go.splits)
  from addJob_bounded[OF a "2.prems"(2)]
  have b: "int (len (jobs (worker st1))) \<le> number (worker st1)" .
  from "2.IH"[OF a refl p b] addJob_worker(1)[OF a] show ?case by simp
next
  case (3 c e job ops st)
  have b: "int (len (jobs (worker (snd (endJob job st))))) \<le> number (worker (snd (endJob job st)))"
    using endJob_worker(1,3)[of job st] "3.prems"(2) by linarith
  from "3.IH"[OF _ b] "3.prems"(1) endJob_worker(1)[of job st] show ?case by simp
next
  case (4 c e ops st)
  then show ?case by simp
qed

text \<open>
  C4. A pool created by \<open>Executor.start\<close> with a capacity that is not negative
  never holds more jobs than its capacity, whatever sequence of \<open>addJob\<close>,
  \<open>endJob\<close> and shut-down assignments it goes through (every point of a run is
  the end of such a sequence); \<open>addJob\<close> inserts only when the number of jobs
  is strictly below the capacity; and once \<open>shuttingDown\<close> is set \<open>addJob\<close>
  fails and leaves the state as it is.
\<close>

theorem pool_never_exceeds_capacity:
  "(0 \<le> sint (Concurrency (task e)) \<longrightarrow>
      (\<forall>ops st'. pool_ops c e ops (initState e ns) = Returns st' \<longrightarrow>
         int (len (jobs (worker st'))) \<le> sint (Concurrency (task e))
         \<and> number (worker st') = sint (Concurrency (task e))))
   \<and> (\<forall>st'. addJob c e node i st = Returns (None, st') \<longrightarrow>
         int (len (jobs (worker st))) < number (worker st))
   \<and> (shuttingDown (worker st) \<longrightarrow>
         addJob c e node i st = Returns (Some ''workers is stopped'', st))"
proof (intro conjI impI allI)
  fix ops st'
  assume c0: "0 \<le> sint (Concurrency (task e))"
    and p: "pool_ops c e ops (initState e ns) = Returns st'"
  have b: "int (len (jobs (worker (initState e ns)))) \<le> number (worker (initState e ns))"
    using c0 by (simp add: initState_def newWorkers_def len_fmempty)
  from pool_ops_bounded[OF p b]
  show "int (len (jobs (worker st'))) \<le> sint (Concurrency (task e))"
    and "number (worker st') = sint (Concurrency (task e))"
    by (simp_all add: initState_def newWorkers_def)
next
  fix st' assume "addJob c e node i st = Returns (None, st')"
  then show "int (len (jobs (worker st))) < number (worker st)"
    by (simp add: addJob_worker)
next
  assume "shuttingDown (worker st)"
  then show "addJob c e node i st = Returns (Some ''workers is stopped'', st)"
    by (simp add: addJob_def)
qed

theorem pool_never_exceeds_capacity_witness:
  "0 \<le> sint (Concurrency (task (exExecutor ''check'' 1 (Some 2) 0)))
   \<and> (\<exists>st'. pool_ops exEnv (exExecutor ''check'' 1 (Some 2) 0)
               [AddJob (exNode ''a'' []) 0, AddJob (exNode ''b'' []) 1, EndJob ''a'', ShutDownPool,
                AddJob (exNode ''b'' []) 1]
               (initState (exExecutor ''check'' 1 (Some 2) 0) [exNode ''a'' [], exNode ''b'' []])
             = Returns st'
          \<and> int (len (jobs (worker st'))) \<le> 1)"
proof -
  let ?e = "exExecutor ''check'' 1 (Some 2) 0"
  let ?ops = "[AddJob (exNode ''a'' []) 0, AddJob (exNode ''b'' []) 1, EndJob ''a'', ShutDownPool,
                AddJob (exNode ''b'' []) 1]"
  let ?st = "initState ?e [exNode ''a'' [], exNode ''b'' []]"
  have c0: "0 \<le> sint (Concurrency (task ?e))"
    by (simp add: ex_defs)
  have "pool_ops exEnv ?e ?ops ?st \<noteq> Panics"
    by (simp add: ex_defs run_defs)
  then obtain st' where r: "pool_ops exEnv ?e ?ops ?st = Returns st'"
    by (cases "pool_ops exEnv ?e ?ops ?st") auto
  from pool_never_exceeds_capacity[of ?e exEnv "[exNode ''a'' [], exNode ''b'' []]"] c0 r
  have "int (len (jobs (worker st'))) \<le> sint (Concurrency (task ?e))" by blast
  then have "int (len (jobs (worker st'))) \<le> 1" by (simp add: ex_defs)
  with c0 r show ?thesis by blast
qed

text \<open>
  C5. \<open>addJob\<close> returns an error exactly when the pool is shutting down
  (message \<open>workers is stopped\<close>) or the number of jobs has reached the capacity
  (message \<open>workers are all running, n/m\<close>), and then leaves the state, hence
  the jobs map, unchanged; otherwise it stores the index under the node's name
  (and returns no error, unless building the message panics). \<open>endJob\<close>
  returns the stored index and removes the entry; it returns an error exactly
  when the name has no entry, and then leaves the state unchanged.
\<close>

theorem addJob_endJob_results:
  "((\<exists>err st'. addJob c e node i st = Returns (Some err, st')) \<longleftrightarrow>
      (shuttingDown (worker st) \<or> number (worker st) \<le> int (len (jobs (worker st)))))
   \<and> (shuttingDown (worker st) \<longrightarrow>
        addJob c e node i st = Returns (Some ''workers is stopped'', st))
   \<and> (\<not> shuttingDown (worker st) \<and> number (worker st) \<le> int (len (jobs (worker st))) \<longrightarrow>
        addJob c e node i st =
          Returns (Some (''workers are all running, '' @ Itoa (int (len (jobs (worker st)))) @ ''/''
                         @ Itoa (number (worker st))), st))
   \<and> (\<not> shuttingDown (worker st) \<and> int (len (jobs (worker st))) < number (worker st) \<longrightarrow>
        (case initMessage c e (uuidNew c (length (downStream st))) node of
           Panics \<Rightarrow> addJob c e node i st = Panics
         | Returns msg \<Rightarrow>
             (\<exists>st'. addJob c e node i st = Returns (None, st')
                \<and> jobs (worker st') = fmupd (NodeName node) i (jobs (worker st)))))
   \<and> ((\<exists>k err st'. endJob job st = ((k, Some err), st')) \<longleftrightarrow> fmlookup (jobs (worker st)) job = None)
   \<and> (fmlookup (jobs (worker st)) job = None \<longrightarrow> snd (endJob job st) = st)
   \<and> (\<forall>k. fmlookup (jobs (worker st)) job = Some k \<longrightarrow>
        endJob job st = ((k, None), st\<lparr>worker := (worker st)\<lparr>jobs := fmdrop job (jobs (worker st))\<rparr>\<rparr>))"
  by (auto simp: addJob_def endJob_def Let_def split: go.splits option.splits)

theorem addJob_endJob_results_witness:
  "(let e = exExecutor ''check'' 1 (Some 2) 0;
        st0 = initState e [exNode ''a'' [], exNode ''b'' []];
        st1 = st0\<lparr>worker := (worker st0)\<lparr>jobs := fmupd ''a'' 0 fmempty\<rparr>\<rparr>;
        st2 = st0\<lparr>worker := (worker st0)\<lparr>shuttingDown := True\<rparr>\<rparr>
    in shuttingDown (worker st2)
     \<and> addJob exEnv e (exNode ''a'' []) 0 st2 = Returns (Some ''workers is stopped'', st2)
     \<and> \<not> shuttingDown (worker st1) \<and> number (worker st1) \<le> int (len (jobs (worker st1)))
     \<and> addJob exEnv e (exNode ''b'' []) 1 st1 = Returns (Some ''workers are all running, 1/1'', st1)
     \<and> \<not> shuttingDown (worker st0) \<and> int (len (jobs (worker st0))) < number (worker st0)
     \<and> (\<exists>st'. addJob exEnv e (exNode ''a'' []) 0 st0 = Returns (None, st')
            \<and> jobs (worker st') = fmupd ''a'' 0 (jobs (worker st0)))
     \<and> fmlookup (jobs (worker st0)) ''a'' = None \<and> snd (endJob ''a'' st0) = st0
     \<and> fmlookup (jobs (worker st1)) ''a'' = Some 0
     \<and> endJob ''a'' st1 = ((0, None), st1\<lparr>worker := (worker st1)\<lparr>jobs := fmdrop ''a'' (jobs (worker st1))\<rparr>\<rparr>))"
proof -
  define e where "e = exExecutor ''check'' 1 (Some 2) 0"
  define st0 where "st0 = initState e [exNode ''a'' [], exNode ''b'' []]"
  define st1 where "st1 = st0\<lparr>worker := (worker st0)\<lparr>jobs := fmupd ''a'' 0 fmempty\<rparr>\<rparr>"
  define st2 where "st2 = st0\<lparr>worker := (worker st0)\<lparr>shuttingDown := True\<rparr>\<rparr>"
  have h2: "shuttingDown (worker st2)" by (simp add: st2_def)
  have h1: "\<not> shuttingDown (worker st1) \<and> number (worker st1) \<le> int (len (jobs (worker st1)))"
    by (simp add: st1_def st0_def e_def ex_defs len_def fcard_finsert_if fcard_fempty)
  have h0: "\<not> shuttingDown (worker st0) \<and> int (len (jobs (worker st0))) < number (worker st0)"
    by (simp add: st0_def e_def ex_defs len_def fcard_fempty)
  have l0: "fmlookup (jobs (worker st0)) ''a'' = None" by (simp add: st0_def e_def ex_defs)
  have l1: "fmlookup (jobs (worker st1)) ''a'' = Some 0" by (simp add: st1_def)
  have i1: "Itoa (int (len (jobs (worker st1)))) = ''1''" "Itoa (number (worker st1)) = ''1''"
    by (simp_all add: st1_def st0_def e_def ex_defs len_def fcard_finsert_if fcard_fempty Itoa_def digits.simps)
  have m: "initMessage exEnv e (uuidNew exEnv (length (downStream st0))) (exNode ''a'' [])
           = Returns (taskMessage exEnv e (exNode ''a'' []))"
    by (simp add: initMessage_def e_def ex_defs)
  have n: "NodeName (exNode ''a'' []) = ''a''" by (simp add: exNode_def)
  note T = addJob_endJob_results[where c = exEnv and e = e and job = "''a''"]
  have r2: "addJob exEnv e (exNode ''a'' []) 0 st2 = Returns (Some ''workers is stopped'', st2)"
    using T[where st = st2 and node = "exNode ''a'' []" and i = 0] h2 by (elim conjE) simp
  have r1: "addJob exEnv e (exNode ''b'' []) 1 st1 = Returns (Some ''workers are all running, 1/1'', st1)"
    using T[where st = st1 and node = "exNode ''b'' []" and i = 1] h1 i1 by (elim conjE) simp
  have r1': "endJob ''a'' st1 = ((0, None), st1\<lparr>worker := (worker st1)\<lparr>jobs := fmdrop ''a'' (jobs (worker st1))\<rparr>\<rparr>)"
    using T[where st = st1 and node = "exNode ''b'' []" and i = 1] l1 by (elim conjE) simp
  have r0: "\<exists>st'. addJob exEnv e (exNode ''a'' []) 0 st0 = Returns (None, st')
            \<and> jobs (worker st') = fmupd ''a'' 0 (jobs (worker st0))"
    using T[where st = st0 and node = "exNode ''a'' []" and i = 0] h0 m n by (elim conjE) simp
  have r0': "snd (endJob ''a'' st0) = st0"
    using T[where st = st0 and node = "exNode ''a'' []" and i = 0] l0 by (elim conjE) simp
  from h2 r2 h1 r1 h0 r0 l0 r0' l1 r1' show ?thesis
    unfolding Let_def e_def[symmetric] st0_def[symmetric] st1_def[symmetric] st2_def[symmetric]
    by simp
qed

text \<open>
  A pool that is shutting down and a full pool of capacity 1: the errors of
  \<open>addJob\<close> are \<open>workers is stopped\<close> and \<open>workers are all running, 1/1\<close>,
  not \<open>workers stopped\<close> and \<open>workers full\<close>.
\<close>

theorem addJob_messages_counterexample:
  "(let e = exExecutor ''check'' 1 (Some 2) 0;
        st0 = initState e [exNode ''a'' [], exNode ''b'' []];
        st1 = st0\<lparr>worker := (worker st0)\<lparr>jobs := fmupd ''a'' 0 fmempty\<rparr>\<rparr>;
        st2 = st0\<lparr>worker := (worker st0)\<lparr>shuttingDown := True\<rparr>\<rparr>
    in shuttingDown (worker st2)
     \<and> addJob exEnv e (exNode ''a'' []) 0 st2 = Returns (Some ''workers is stopped'', st2)
     \<and> addJob exEnv e (exNode ''a'' []) 0 st2 \<noteq> Returns (Some ''workers stopped'', st2)
     \<and> \<not> shuttingDown (worker st1) \<and> number (worker st1) \<le> int (len (jobs (worker st1)))
     \<and> addJob exEnv e (exNode ''b'' []) 1 st1 = Returns (Some ''workers are all running, 1/1'', st1)
     \<and> addJob exEnv e (exNode ''b'' []) 1 st1 \<noteq> Returns (Some ''workers full'', st1))"
  by (simp add: ex_defs addJob_def Let_def len_def fcard_finsert_if fcard_fempty Itoa_def digits.simps)

subsection \<open>Stage initialisation\<close>

lemma deal_frame:
  assumes "dealCompletedNode c e m node st = (r, st')"
  shows "nodes st' = nodes st" and "index st' = index st" and "watchers st' = watchers st"
    and "downStream st' = downStream st" and "jobs (worker st') = jobs (worker st)"
    and "number (worker st') = number (worker st)"
    and "failedNodes st' = failedAfter c node st"
    and "r \<noteq> None \<Longrightarrow> shuttingDown (worker st') \<and> len (jobs (worker st)) = 0"
    and "shuttingDown (worker st) \<Longrightarrow> shuttingDown (worker st')"
  using assms
  by (auto simp: dealCompletedNode_def failedAfter_def Let_def split: if_splits sum.splits)

lemma addJob_frame:
  assumes "addJob c e node i st = Returns (r, st')"
  shows "nodes st' = nodes st" and "index st' = index st" and "failedNodes st' = failedNodes st"
    and "taskReports st' = taskReports st"
    and "r = None \<Longrightarrow> watchers st' = watchers st @ [i]"
    and "r = None \<Longrightarrow> length (downStream st') = Suc (length (downStream st))"
    and "r \<noteq> None \<Longrightarrow> shuttingDown (worker st) \<or> number (worker st) \<le> int (len (jobs (worker st)))"
  using assms by (auto simp: addJob_def Let_def split: if_splits go.splits)

lemma rangeNodes_scan:
  assumes "rangeNodes c e (dealCompletedNode c e m) idx k ns st = Returns ((i, fin, err), st')"
  shows "nodes st' = nodes st
    \<and> (err \<noteq> None \<longrightarrow> i = 0 \<and> shuttingDown (worker st'))
    \<and> (err = None \<longrightarrow>
        (\<exists>cur. cur \<le> length ns \<and> (fin \<longleftrightarrow> cur = length ns)
           \<and> (fin \<longrightarrow> i = (if ns = [] then idx else k + length ns - 1))
           \<and> (\<not> fin \<longrightarrow> i = k + cur
                 \<and> \<not> StageCompleted (controller e) (Name (task e)) (State (ns ! cur))
                 \<and> (shuttingDown (worker st') \<or> number (worker st') \<le> int (len (jobs (worker st')))))
           \<and> watchers st' = watchers st @
                map fst (filter (\<lambda>(j, n). \<not> StageCompleted (controller e) (Name (task e)) (State n))
                          (enumerate k (take cur ns)))
           \<and> failedNodes st' = failedNodes st |\<union>|
                fset_of_list (map NodeName
                  (filter (\<lambda>n. StageCompleted (controller e) (Name (task e)) (State n) \<and> State n = TaskFailed c)
                          (take cur ns)))))"
  using assms
proof (induction ns arbitrary: idx k st)
  case Nil
  then show ?case by auto
next
  case (Cons node rest)
  let ?done = "\<lambda>n. StageCompleted (controller e) (Name (task e)) (State n)"
  show ?case
  proof (cases "?done node")
    case True
    obtain r st1 where d: "dealCompletedNode c e m node st = (r, st1)"
      by (cases "dealCompletedNode c e m node st")
    note fr = deal_frame[OF d]
    show ?thesis
    proof (cases r)
      case (Some msg)
      with Cons.prems True d have "i = 0" "err = Some msg" "st' = st1" by auto
      with fr Some show ?thesis by auto
    next
      case None
      with Cons.prems True d
      have rec: "rangeNodes c e (dealCompletedNode c e m) k (Suc k) rest st1 = Returns ((i, fin, err), st')"
        by simp
      note ih = Cons.IH[OF rec]
      show ?thesis
      proof (intro conjI impI)
        show "nodes st' = nodes st" using ih fr by simp
        show "i = 0" if "err \<noteq> None" using ih that by simp
        show "shuttingDown (worker st')" if "err \<noteq> None" using ih that by simp
        assume en: "err = None"
        with ih obtain cur where cur: "cur \<le> length rest" "fin \<longleftrightarrow> cur = length rest"
          "fin \<longrightarrow> i = (if rest = [] then k else Suc k + length rest - 1)"
          "\<not> fin \<longrightarrow> i = Suc k + cur \<and> \<not> ?done (rest ! cur)
                 \<and> (shuttingDown (worker st') \<or> number (worker st') \<le> int (len (jobs (worker st'))))"
          "watchers st' = watchers st1 @ map fst (filter (\<lambda>(j, n). \<not> ?done n) (enumerate (Suc k) (take cur rest)))"
          "failedNodes st' = failedNodes st1 |\<union>|
                fset_of_list (map NodeName (filter (\<lambda>n. ?done n \<and> State n = TaskFailed c) (take cur rest)))"
          by blast
        show "\<exists>cur. cur \<le> length (node # rest) \<and> (fin \<longleftrightarrow> cur = length (node # rest))
           \<and> (fin \<longrightarrow> i = (if node # rest = [] then idx else k + length (node # rest) - 1))
           \<and> (\<not> fin \<longrightarrow> i = k + cur \<and> \<not> ?done ((node # rest) ! cur)
                 \<and> (shuttingDown (worker st') \<or> number (worker st') \<le> int (len (jobs (worker st')))))
           \<and> watchers st' = watchers st @
                map fst (filter (\<lambda>(j, n). \<not> ?done n) (enumerate k (take cur (node # rest))))
           \<and> failedNodes st' = failedNodes st |\<union>|
                fset_of_list (map NodeName (filter (\<lambda>n. ?done n \<and> State n = TaskFailed c) (take cur (node # rest))))"
          apply (rule exI[of _ "Suc cur"])
          using cur fr True by (auto simp: failedAfter_def)
      qed
    qed
  next
    case False
    from Cons.prems False obtain r st1 where a: "addJob c e node k st = Returns (r, st1)"
      by (auto split: go.splits)
    note fr = addJob_frame[OF a]
    show ?thesis
    proof (cases r)
      case (Some msg)
      with Cons.prems False a have res: "i = k" "\<not> fin" "err = None" "st' = st1" by auto
      from a Some have same: "st1 = st" by (simp add: addJob_worker)
      show ?thesis
        apply (intro conjI impI)
           apply (simp add: res same)
          apply (simp add: res)
         apply (simp add: res)
        apply (rule exI[of _ 0])
        using res same fr(7) Some False by auto
    next
      case None
      with Cons.prems False a
      have rec: "rangeNodes c e (dealCompletedNode c e m) k (Suc k) rest st1 = Returns ((i, fin, err), st')"
        by simp
      note ih = Cons.IH[OF rec]
      show ?thesis
      proof (intro conjI impI)
        show "nodes st' = nodes st" using ih fr by simp
        show "i = 0" if "err \<noteq> None" using ih that by simp
        show "shuttingDown (worker st')" if "err \<noteq> None" using ih that by simp
        assume en: "err = None"
        with ih obtain cur where cur: "cur \<le> length rest" "fin \<longleftrightarrow> cur = length rest"
          "fin \<longrightarrow> i = (if rest = [] then k else Suc k + length rest - 1)"
          "\<not> fin \<longrightarrow> i = Suc k + cur \<and> \<not> ?done (rest ! cur)
                 \<and> (shuttingDown (worker st') \<or> number (worker st') \<le> int (len (jobs (worker st'))))"
          "watchers st' = watchers st1 @ map fst (filter (\<lambda>(j, n). \<not> ?done n) (enumerate (Suc k) (take cur rest)))"
          "failedNodes st' = failedNodes st1 |\<union>|
                fset_of_list (map NodeName (filter (\<lambda>n. ?done n \<and> State n = TaskFailed c) (take cur rest)))"
          by blast
        show "\<exists>cur. cur \<le> length (node # rest) \<and> (fin \<longleftrightarrow> cur = length (node # rest))
           \<and> (fin \<longrightarrow> i = (if node # rest = [] then idx else k + length (node # rest) - 1))
           \<and> (\<not> fin \<longrightarrow> i = k + cur \<and> \<not> ?done ((node # rest) ! cur)
                 \<and> (shuttingDown (worker st') \<or> number (worker st') \<le> int (len (jobs (worker st')))))
           \<and> watchers st' = watchers st @
                map fst (filter (\<lambda>(j, n). \<not> ?done n) (enumerate k (take cur (node # rest))))
           \<and> failedNodes st' = failedNodes st |\<union>|
                fset_of_list (map NodeName (filter (\<lambda>n. ?done n \<and> State n = TaskFailed c) (take cur (node # rest))))"
          apply (rule exI[of _ "Suc cur"])
          using cur fr None False by auto
      qed
    qed
  qed
qed


subsection \<open>Node commands\<close>

text \<open>
  C7. \<open>initMessage\<close> panics exactly when the task type is \<open>upgrade\<close> and one of
  the two type assertions of \<open>initHistoryMessage\<close> fails. Every message it
  builds is the legacy one when the task type is \<open>upgrade\<close>, the controller
  returns the node's version and \<open>VersionLess\<close> finds it below \<open>v1.16.0\<close>:
  legacy router module, resource \<open>upgrade\<close>, task name, \<open>node\<close>, node name
  joined by the separator, body with the task name as upgrade identifier, the
  generated history identifier, the tool \<open>keadm\<close> and the payload's version
  and image. Otherwise it is the current one: resource task type, task name,
  \<open>node\<close>, node name, body of task name, type, node state and item, the item
  being the pre-check request with the check items when the node's state is
  the pre-check state and the task payload otherwise.
\<close>

theorem initMessage_format:
  "(initMessage c e uuid node = Panics \<longleftrightarrow>
      Type (task e) = TaskUpgrade \<and>
      ((\<exists>x. Msg (task e) = OtherRequest x) \<or> \<not> isNodeUpgradeController (controller e)))
   \<and> (\<forall>msg. initMessage c e uuid node = Returns msg \<longrightarrow>
        (if Type (task e) = ''upgrade''
            \<and> (\<exists>v. GetNodeVersion (controller e) (NodeName node) = Inr v
                   \<and> VersionLess c v ''v1.16.0'' = Inr True)
         then \<exists>req. Msg (task e) = UpgradeJobRequest req
              \<and> msg = \<lparr>Source = NodeUpgradeJobControllerModuleName c,
                        Group = NodeUpgradeJobControllerModuleGroup c,
                        Resource = Join [''upgrade'', Name (task e), ''node'', NodeName node] (ResourceSep c),
                        Operation = TaskUpgrade,
                        Content = LegacyRequest
                          \<lparr>UpgradeID = Name (task e), HistoryID = uuid, UpgradeTool = ''keadm'',
                           Version = Version req, Image = Image req\<rparr>\<rparr>
         else msg = \<lparr>Source = TaskManagerModuleName c, Group = TaskManagerModuleGroup c,
                      Resource = Join [Type (task e), Name (task e), ''node'', NodeName node] (ResourceSep c),
                      Operation = TaskUpgrade,
                      Content = NodeTaskRequest (Name (task e)) (Type (task e)) (State node)
                        (if State node = TaskChecking c then NodePreCheckRequest (CheckItem (task e))
                         else ItemMsg (Msg (task e)))\<rparr>))"
  by (auto simp: initMessage_def initHistoryMessage_def taskMessage_def buildTaskResource_def
        buildUpgradeResource_def TaskUpgrade_def Let_def
      split: TaskMsg.splits sum.splits if_splits go.splits option.splits)

theorem initMessage_format_witness:
  "(let e = exExecutor ''upgrade'' 1 (Some 2) 1
    in initMessage exEnv e ''id-0'' (exNode ''old'' []) =
         Returns \<lparr>Source = ''nodeupgradejobcontroller'', Group = ''nodeupgradejobcontroller'',
                  Resource = ''upgrade/job/node/old'', Operation = ''upgrade'',
                  Content = LegacyRequest
                    \<lparr>UpgradeID = ''job'', HistoryID = ''id-0'', UpgradeTool = ''keadm'',
                     Version = ''v1.17.0'', Image = ''kubeedge/installation-package''\<rparr>\<rparr>
     \<and> initMessage exEnv e ''id-1'' (exNode ''new'' ''Checking'') =
         Returns \<lparr>Source = ''taskmanager'', Group = ''taskmanager'',
                  Resource = ''upgrade/job/node/new'', Operation = ''upgrade'',
                  Content = NodeTaskRequest ''job'' ''upgrade'' ''Checking''
                    (NodePreCheckRequest [''cpu''])\<rparr>)"
proof -
  define e where "e = exExecutor ''upgrade'' 1 (Some 2) 1"
  have np: "\<not> (Type (task e) = TaskUpgrade \<and>
      ((\<exists>x. Msg (task e) = OtherRequest x) \<or> \<not> isNodeUpgradeController (controller e)))"
    by (simp add: e_def ex_defs)
  have old: "Type (task e) = ''upgrade''
       \<and> (\<exists>v. GetNodeVersion (controller e) (NodeName (exNode ''old'' [])) = Inr v
              \<and> VersionLess exEnv v ''v1.16.0'' = Inr True)"
    by (simp add: e_def ex_defs)
  have new: "\<not> (Type (task e) = ''upgrade''
       \<and> (\<exists>v. GetNodeVersion (controller e) (NodeName (exNode ''new'' ''Checking'')) = Inr v
              \<and> VersionLess exEnv v ''v1.16.0'' = Inr True))"
    by (simp add: e_def ex_defs)
  obtain m0 where m0: "initMessage exEnv e ''id-0'' (exNode ''old'' []) = Returns m0"
    using initMessage_format[of exEnv e "''id-0''" "exNode ''old'' []"] np
    by (cases "initMessage exEnv e ''id-0'' (exNode ''old'' [])") auto
  obtain m1 where m1: "initMessage exEnv e ''id-1'' (exNode ''new'' ''Checking'') = Returns m1"
    using initMessage_format[of exEnv e "''id-1''" "exNode ''new'' ''Checking''"] np
    by (cases "initMessage exEnv e ''id-1'' (exNode ''new'' ''Checking'')") auto
  have "m0 = \<lparr>Source = ''nodeupgradejobcontroller'', Group = ''nodeupgradejobcontroller'',
                  Resource = ''upgrade/job/node/old'', Operation = ''upgrade'',
                  Content = LegacyRequest
                    \<lparr>UpgradeID = ''job'', HistoryID = ''id-0'', UpgradeTool = ''keadm'',
                     Version = ''v1.17.0'', Image = ''kubeedge/installation-package''\<rparr>\<rparr>"
    using initMessage_format[of exEnv e "''id-0''" "exNode ''old'' []"] m0 old
    by (auto simp: e_def ex_defs)
  moreover
  have "m1 = \<lparr>Source = ''taskmanager'', Group = ''taskmanager'',
                  Resource = ''upgrade/job/node/new'', Operation = ''upgrade'',
                  Content = NodeTaskRequest ''job'' ''upgrade'' ''Checking''
                    (NodePreCheckRequest [''cpu''])\<rparr>"
    using initMessage_format[of exEnv e "''id-1''" "exNode ''new'' ''Checking''"] m1 new
    by (auto simp: e_def ex_defs)
  ultimately show ?thesis
    using m0 m1 unfolding Let_def e_def[symmetric] by simp
qed

text \<open>
  C10. For an \<open>upgrade\<close> task whose payload and controller pass the type
  assertions, when the controller cannot return the node's version, or
  \<open>VersionLess\<close> fails on it, \<open>initMessage\<close> returns the current-format
  message, and \<open>addJob\<close> on a pool that is not shutting down and has room
  admits the node and sends that message: the failure of the legacy path is not
  an admission failure.
\<close>

theorem legacy_failure_falls_back:
  assumes "Type (task e) = TaskUpgrade" and "Msg (task e) = UpgradeJobRequest req"
    and "isNodeUpgradeController (controller e)"
    and "(\<exists>err. GetNodeVersion (controller e) (NodeName node) = Inl err)
       \<or> (\<exists>v err. GetNodeVersion (controller e) (NodeName node) = Inr v
                   \<and> VersionLess c v ''v1.16.0'' = Inl err)"
  shows "initMessage c e uuid node = Returns (taskMessage c e node)
    \<and> Content (taskMessage c e node) = NodeTaskRequest (Name (task e)) (Type (task e)) (State node)
         (if State node = TaskChecking c then NodePreCheckRequest (CheckItem (task e))
          else ItemMsg (Msg (task e)))
    \<and> (\<not> shuttingDown (worker st) \<and> int (len (jobs (worker st))) < number (worker st) \<longrightarrow>
         (\<exists>st'. addJob c e node i st = Returns (None, st')
            \<and> downStream st' = downStream st @ [taskMessage c e node]
            \<and> fmlookup (jobs (worker st')) (NodeName node) = Some i))"
proof -
  have m: "initMessage c e u node = Returns (taskMessage c e node)" for u
    using assms by (auto simp: initMessage_def initHistoryMessage_def Let_def)
  show ?thesis
    by (auto simp: m addJob_def taskMessage_def Let_def)
qed

theorem legacy_failure_falls_back_witness:
  "(let e = exExecutor ''upgrade'' 1 (Some 2) 1;
        st = initState e [exNode ''lost'' [], exNode ''odd'' []]
    in GetNodeVersion (controller e) ''lost'' = Inl ''not found''
     \<and> initMessage exEnv e ''id-0'' (exNode ''lost'' []) = Returns (taskMessage exEnv e (exNode ''lost'' []))
     \<and> GetNodeVersion (controller e) ''odd'' = Inr ''vx''
     \<and> VersionLess exEnv ''vx'' ''v1.16.0'' = Inl ''invalid version''
     \<and> initMessage exEnv e ''id-0'' (exNode ''odd'' []) = Returns (taskMessage exEnv e (exNode ''odd'' []))
     \<and> (\<exists>st'. addJob exEnv e (exNode ''odd'' []) 1 st = Returns (None, st')
            \<and> downStream st' = downStream st @ [taskMessage exEnv e (exNode ''odd'' [])]))"
proof -
  define e where "e = exExecutor ''upgrade'' 1 (Some 2) 1"
  define st where "st = initState e [exNode ''lost'' [], exNode ''odd'' []]"
  have a: "Type (task e) = TaskUpgrade" "Msg (task e) = UpgradeJobRequest exRequest"
    "isNodeUpgradeController (controller e)"
    by (simp_all add: e_def ex_defs)
  have v1: "GetNodeVersion (controller e) ''lost'' = Inl ''not found''"
    and v2: "GetNodeVersion (controller e) ''odd'' = Inr ''vx''"
    and v3: "VersionLess exEnv ''vx'' ''v1.16.0'' = Inl ''invalid version''"
    by (simp_all add: e_def ex_defs)
  have n: "NodeName (exNode ''lost'' []) = ''lost''" "NodeName (exNode ''odd'' []) = ''odd''"
    by (simp_all add: exNode_def)
  have h1: "(\<exists>err. GetNodeVersion (controller e) (NodeName (exNode ''lost'' [])) = Inl err)
       \<or> (\<exists>v err. GetNodeVersion (controller e) (NodeName (exNode ''lost'' [])) = Inr v
                   \<and> VersionLess exEnv v ''v1.16.0'' = Inl err)"
    unfolding n using v1 by simp
  have h2: "(\<exists>err. GetNodeVersion (controller e) (NodeName (exNode ''odd'' [])) = Inl err)
       \<or> (\<exists>v err. GetNodeVersion (controller e) (NodeName (exNode ''odd'' [])) = Inr v
                   \<and> VersionLess exEnv v ''v1.16.0'' = Inl err)"
    unfolding n using v2 v3 by simp
  have room: "\<not> shuttingDown (worker st) \<and> int (len (jobs (worker st))) < number (worker st)"
    by (simp add: st_def e_def ex_defs len_fmempty)
  from legacy_failure_falls_back[OF a h1, of "''id-0''" st 0]
  have r1: "initMessage exEnv e ''id-0'' (exNode ''lost'' []) = Returns (taskMessage exEnv e (exNode ''lost'' []))"
    by simp
  from legacy_failure_falls_back[OF a h2, of "''id-0''" st 1] room
  have r2: "initMessage exEnv e ''id-0'' (exNode ''odd'' []) = Returns (taskMessage exEnv e (exNode ''odd'' []))"
    and r3: "\<exists>st'. addJob exEnv e (exNode ''odd'' []) 1 st = Returns (None, st')
            \<and> downStream st' = downStream st @ [taskMessage exEnv e (exNode ''odd'' [])]"
    by blast+
  from v1 r1 v2 v3 r2 r3 show ?thesis
    unfolding Let_def e_def[symmetric] st_def[symmetric] by simp
qed

subsection \<open>Status reports and the failed set\<close>

text \<open>
  C8. A status report that is nil, or equal to the empty \<open>TaskStatus\<close>, or
  whose state does not complete the stage, or whose node has no job in flight,
  leaves the whole state as it was (the node slice, the cursor, the failed set
  and the jobs map in particular), and the loop goes on.
\<close>

theorem ignored_report_changes_nothing:
  assumes "status = None \<or> status = Some emptyStatus
     \<or> (\<exists>s. status = Some s \<and>
           (\<not> StageCompleted (controller e) (Name (task e)) (State s)
            \<or> fmlookup (jobs (worker st)) (NodeName s) = None))"
  shows "handleStatus c e m status st = Returns (Continue, st)"
  using assms by (auto simp: handleStatus_def endJob_def Let_def)

theorem ignored_report_changes_nothing_witness:
  "(let e = exExecutor ''check'' 1 (Some 2) 1;
        st = \<lparr>nodes = [exNode ''a'' [], exNode ''b'' []], index = 1, failedNodes = {||},
              worker = \<lparr>number = 1, jobs = fmupd ''a'' 0 fmempty, shuttingDown = False\<rparr>,
              downStream = [taskMessage exEnv e (exNode ''a'' [])], watchers = [0], taskReports = []\<rparr>
    in handleStatus exEnv e 2 None st = Returns (Continue, st)
     \<and> handleStatus exEnv e 2 (Some emptyStatus) st = Returns (Continue, st)
     \<and> \<not> StageCompleted (controller e) (Name (task e)) (State (exNode ''a'' ''Upgrading''))
     \<and> handleStatus exEnv e 2 (Some (exNode ''a'' ''Upgrading'')) st = Returns (Continue, st)
     \<and> fmlookup (jobs (worker st)) (NodeName (exNode ''b'' ''Successful'')) = None
     \<and> handleStatus exEnv e 2 (Some (exNode ''b'' ''Successful'')) st = Returns (Continue, st))"
proof -
  define e where "e = exExecutor ''check'' 1 (Some 2) 1"
  define st where "st = \<lparr>nodes = [exNode ''a'' [], exNode ''b'' []], index = 1, failedNodes = {||},
              worker = \<lparr>number = 1, jobs = fmupd ''a'' 0 fmempty, shuttingDown = False\<rparr>,
              downStream = [taskMessage exEnv e (exNode ''a'' [])], watchers = [0], taskReports = []\<rparr>"
  have h3: "\<not> StageCompleted (controller e) (Name (task e)) (State (exNode ''a'' ''Upgrading''))"
    by (simp add: e_def ex_defs)
  have h4: "fmlookup (jobs (worker st)) (NodeName (exNode ''b'' ''Successful'')) = None"
    by (simp add: st_def ex_defs)
  have r1: "handleStatus exEnv e 2 None st = Returns (Continue, st)"
    by (rule ignored_report_changes_nothing) simp
  have r2: "handleStatus exEnv e 2 (Some emptyStatus) st = Returns (Continue, st)"
    by (rule ignored_report_changes_nothing) simp
  have r3: "handleStatus exEnv e 2 (Some (exNode ''a'' ''Upgrading'')) st = Returns (Continue, st)"
    using h3 by (intro ignored_report_changes_nothing) simp
  have r4: "handleStatus exEnv e 2 (Some (exNode ''b'' ''Successful'')) st = Returns (Continue, st)"
    using h4 by (intro ignored_report_changes_nothing) simp
  from r1 r2 h3 r3 h4 r4 show ?thesis
    unfolding Let_def e_def[symmetric] st_def[symmetric] by simp
qed

lemma failedAfter_grows: "failedNodes st |\<subseteq>| failedAfter c node st"
  by (auto simp: failedAfter_def)

lemma deal_grows: "failedNodes st |\<subseteq>| failedNodes (snd (dealCompletedNode c e m node st))"
  using deal_frame(7)[of c e m node st] failedAfter_grows[of st c node]
  by (cases "dealCompletedNode c e m node st") simp

lemma rangeNodes_grows:
  "rangeNodes c e (dealCompletedNode c e m) idx k ns st = Returns (r, st') \<Longrightarrow>
   failedNodes st |\<subseteq>| failedNodes st'"
proof (induction ns arbitrary: idx k st)
  case Nil
  then show ?case by simp
next
  case (Cons node rest)
  show ?case
  proof (cases "StageCompleted (controller e) (Name (task e)) (State node)")
    case True
    obtain x st1 where d: "dealCompletedNode c e m node st = (x, st1)"
      by (cases "dealCompletedNode c e m node st")
    from deal_grows[of st c e m node] d have g: "failedNodes st |\<subseteq>| failedNodes st1" by simp
    show ?thesis
    proof (cases x)
      case None
      with Cons.prems True d
      have "rangeNodes c e (dealCompletedNode c e m) k (Suc k) rest st1 = Returns (r, st')" by simp
      from Cons.IH[OF this] g show ?thesis by blast
    next
      case (Some msg)
      with Cons.prems True d have "st' = st1" by simp
      with g show ?thesis by simp
    qed
  next
    case False
    from Cons.prems False obtain x st1 where a: "addJob c e node k st = Returns (x, st1)"
      by (auto split: go.splits)
    from addJob_frame(3)[OF a] have g: "failedNodes st1 = failedNodes st" .
    show ?thesis
    proof (cases x)
      case None
      with Cons.prems False a
      have "rangeNodes c e (dealCompletedNode c e m) k (Suc k) rest st1 = Returns (r, st')" by simp
      from Cons.IH[OF this] g show ?thesis by simp
    next
      case (Some msg)
      with Cons.prems False a have "st' = st1" by simp
      with g show ?thesis by simp
    qed
  qed
qed

lemma initWorker_grows:
  "initWorker c e (dealCompletedNode c e m) st = Returns (r, st') \<Longrightarrow>
   failedNodes st |\<subseteq>| failedNodes st'"
proof -
  assume a: "initWorker c e (dealCompletedNode c e m) st = Returns (r, st')"
  then obtain x where "rangeNodes c e (dealCompletedNode c e m) 0 0 (nodes st) st = Returns (x, st')"
    by (auto simp: initWorker_def split: go.splits option.splits)
  then show ?thesis by (rule rangeNodes_grows)
qed

lemma handleStatus_grows:
  assumes "handleStatus c e m status st = Returns (f, st')"
  shows "failedNodes st |\<subseteq>| failedNodes st'"
proof (cases "status = None \<or> status = Some emptyStatus
     \<or> (\<exists>s. status = Some s \<and>
           (\<not> StageCompleted (controller e) (Name (task e)) (State s)
            \<or> fmlookup (jobs (worker st)) (NodeName s) = None))")
  case True
  then have "handleStatus c e m status st = Returns (Continue, st)"
    by (auto simp: handleStatus_def endJob_def Let_def)
  with assms show ?thesis by simp
next
  case False
  then obtain s endNode where s: "status = Some s"
    and sc: "StageCompleted (controller e) (Name (task e)) (State s)" and ne: "s \<noteq> emptyStatus"
    and lk: "fmlookup (jobs (worker st)) (NodeName s) = Some endNode"
    by (cases status) auto
  define st1 where "st1 = st\<lparr>worker := (worker st)\<lparr>jobs := fmdrop (NodeName s) (jobs (worker st))\<rparr>\<rparr>"
  have ej: "endJob (NodeName s) st = ((endNode, None), st1)"
    by (simp add: endJob_def Let_def lk st1_def)
  define st2 where "st2 = st1\<lparr>nodes := (nodes st1)[endNode := s]\<rparr>"
  have f2: "failedNodes st2 = failedNodes st" by (simp add: st2_def st1_def)
  obtain y st3 where d: "dealCompletedNode c e m s st2 = (y, st3)"
    by (cases "dealCompletedNode c e m s st2")
  from deal_grows[of st2 c e m s] d f2 have f3: "failedNodes st |\<subseteq>| failedNodes st3" by simp
  have cf: "failedNodes (snd (completedTaskStage c e s st3)) = failedNodes st3"
    by (simp add: completedTaskStage_def Let_def)
  from assms s sc ne ej d
  have "st' = st3 \<or> st' = snd (completedTaskStage c e s st3)
     \<or> (\<exists>r st4. initWorker c e (dealCompletedNode c e m) (snd (completedTaskStage c e s st3)) = Returns (r, st4)
            \<and> failedNodes st' = failedNodes st4)
     \<or> (\<exists>r st4. addJob c e (nodes st3 ! index st3) (index st3) st3 = Returns (r, st4)
            \<and> failedNodes st' = failedNodes st4)"
    by (auto simp: handleStatus_def st2_def Let_def
          split: option.splits if_splits sum.splits go.splits prod.splits)
  then show ?thesis
  proof (elim disjE exE conjE)
    assume "st' = st3" with f3 show ?thesis by simp
  next
    assume "st' = snd (completedTaskStage c e s st3)"
    with cf f3 show ?thesis by simp
  next
    fix r st4
    assume "initWorker c e (dealCompletedNode c e m) (snd (completedTaskStage c e s st3)) = Returns (r, st4)"
      and "failedNodes st' = failedNodes st4"
    with initWorker_grows[of c e m "snd (completedTaskStage c e s st3)" r st4] cf f3
    show ?thesis by auto
  next
    fix r st4
    assume "addJob c e (nodes st3 ! index st3) (index st3) st3 = Returns (r, st4)"
      and "failedNodes st' = failedNodes st4"
    with addJob_frame(3)[of c e "nodes st3 ! index st3" "index st3" st3 r st4] f3
    show ?thesis by simp
  qed
qed

lemma loop_grows:
  "loop c e m evs st = Returns (f, st') \<Longrightarrow> failedNodes st |\<subseteq>| failedNodes st'"
proof (induction c e m evs st rule: loop.induct)
  case (1 c e m st)
  then show ?case by simp
next
  case (2 c e m evs st)
  then show ?case by simp
next
  case (3 c e m status evs st)
  from "3.prems" obtain g st1 where h: "handleStatus c e m status st = Returns (g, st1)"
    by (auto split: go.splits)
  note g1 = handleStatus_grows[OF h]
  show ?case
  proof (cases g)
    case Continue
    with "3.prems" h have "loop c e m evs st1 = Returns (f, st')" by simp
    from "3.IH"[OF h refl Continue this] g1 show ?thesis by blast
  qed (use "3.prems" h g1 in auto)
qed

text \<open>
  C9. The failed set is created empty when \<open>Executor.start\<close> begins and is
  never reset: it only grows over any run of the scheduling loop, whatever the
  reports, and over every stage initialisation (\<open>initWorker\<close> at a stage
  boundary keeps the failures of the earlier stages), so the tolerance is
  measured over the whole task. The handler called again for a node that is
  already in the set leaves the set, hence the count, as it is.
\<close>

theorem failedNodes_accumulate:
  "failedNodes (initState e ns) = {||}
   \<and> (\<forall>f st'. loop c e m evs st = Returns (f, st') \<longrightarrow> failedNodes st |\<subseteq>| failedNodes st')
   \<and> (\<forall>r st'. initWorker c e (dealCompletedNode c e m) st = Returns (r, st') \<longrightarrow>
         failedNodes st |\<subseteq>| failedNodes st')
   \<and> failedNodes st |\<subseteq>| failedNodes (snd (dealCompletedNode c e m node st))
   \<and> (NodeName node |\<in>| failedNodes st \<longrightarrow>
         failedNodes (snd (dealCompletedNode c e m node st)) = failedNodes st
         \<and> fcard (failedNodes (snd (dealCompletedNode c e m node st))) = fcard (failedNodes st))"
proof (intro conjI allI impI)
  show "failedNodes (initState e ns) = {||}" by (simp add: initState_def)
next
  fix f st' assume "loop c e m evs st = Returns (f, st')"
  then show "failedNodes st |\<subseteq>| failedNodes st'" by (rule loop_grows)
next
  fix r st' assume "initWorker c e (dealCompletedNode c e m) st = Returns (r, st')"
  then show "failedNodes st |\<subseteq>| failedNodes st'" by (rule initWorker_grows)
next
  show "failedNodes st |\<subseteq>| failedNodes (snd (dealCompletedNode c e m node st))"
    by (rule deal_grows)
next
  assume a: "NodeName node |\<in>| failedNodes st"
  obtain y st1 where d: "dealCompletedNode c e m node st = (y, st1)"
    by (cases "dealCompletedNode c e m node st")
  from deal_frame(7)[OF d] a have "failedNodes st1 = failedNodes st"
    by (auto simp: failedAfter_def)
  with d show "failedNodes (snd (dealCompletedNode c e m node st)) = failedNodes st"
    and "fcard (failedNodes (snd (dealCompletedNode c e m node st))) = fcard (failedNodes st)"
    by simp_all
qed

theorem failedNodes_accumulate_witness:
  "(let e = exExecutor ''check'' 2 (Some 2) 1;
        st = \<lparr>nodes = [exNode ''a'' [], exNode ''b'' [], exNode ''c'' []], index = 2,
              failedNodes = {|''z''|},
              worker = \<lparr>number = 2, jobs = fmupd ''b'' 1 (fmupd ''a'' 0 fmempty), shuttingDown = False\<rparr>,
              downStream = [], watchers = [0, 1], taskReports = []\<rparr>
    in (\<exists>f st'. loop exEnv e 3 [StatusReport (Some (exNode ''a'' ''Failed'')),
                                 StatusReport (Some (exNode ''a'' ''Failed''))] st = Returns (f, st')
          \<and> failedNodes st' = {|''a'', ''z''|} \<and> failedNodes st |\<subseteq>| failedNodes st')
     \<and> ''z'' |\<in>| failedNodes st
     \<and> failedNodes (snd (dealCompletedNode exEnv e 3 (exNode ''z'' ''Failed'') st)) = failedNodes st)"
proof -
  define e where "e = exExecutor ''check'' 2 (Some 2) 1"
  define st where "st = \<lparr>nodes = [exNode ''a'' [], exNode ''b'' [], exNode ''c'' []], index = 2,
              failedNodes = {|''z''|},
              worker = \<lparr>number = 2, jobs = fmupd ''b'' 1 (fmupd ''a'' 0 fmempty), shuttingDown = False\<rparr>,
              downStream = [], watchers = [0, 1], taskReports = []\<rparr>"
  let ?evs = "[StatusReport (Some (exNode ''a'' ''Failed'')), StatusReport (Some (exNode ''a'' ''Failed''))]"
  have "\<exists>f st'. loop exEnv e 3 ?evs st = Returns (f, st') \<and> failedNodes st' = {|''a'', ''z''|}"
    by (simp add: st_def e_def ex_defs run_defs scan_defs handleStatus_def)
  then obtain f st' where r: "loop exEnv e 3 ?evs st = Returns (f, st')"
    and fs: "failedNodes st' = {|''a'', ''z''|}"
    by blast
  have z: "''z'' |\<in>| failedNodes st" by (simp add: st_def)
  have n: "NodeName (exNode ''z'' ''Failed'') = ''z''" by (simp add: exNode_def)
  from failedNodes_accumulate[of e "[]" exEnv 3 ?evs st "exNode ''z'' ''Failed''"] r z
  have "failedNodes st |\<subseteq>| failedNodes st'"
    and "failedNodes (snd (dealCompletedNode exEnv e 3 (exNode ''z'' ''Failed'') st)) = failedNodes st"
    unfolding n by blast+
  with r fs z show ?thesis
    unfolding Let_def e_def[symmetric] st_def[symmetric] by blast
qed

subsection \<open>The timeout watcher\<close>

lemma poll_deadline_iff:
  "poll_deadline c P xs = (if \<exists>x \<in> set xs. P x then None else Some (ErrWaitTimeout c))"
  by (induction xs) auto

lemma bex_map_upt: "(\<exists>x \<in> set (map f [0..<n]). P x) = (\<exists>k < n. P (f k))"
  by auto

lemma poll_forever_found:
  "condition (reads (k + j)) \<Longrightarrow> \<exists>r. poll_forever condition reads k = Some r"
proof (induction j arbitrary: k)
  case 0
  then show ?case by (simp add: poll_forever.simps)
next
  case (Suc j)
  then have "condition (reads (Suc k + j))" by simp
  from Suc.IH[OF this] show ?case
    by (subst poll_forever.simps) auto
qed

lemma poll_forever_sound:
  assumes "poll_forever condition reads k = Some r"
  shows "k \<le> r \<and> condition (reads r)"
proof (rule poll_forever.raw_induct[where P = "\<lambda>cond rd k y. k \<le> y \<and> cond (rd y)", OF _ assms])
  fix f :: "('a \<Rightarrow> bool) \<Rightarrow> (nat \<Rightarrow> 'a) \<Rightarrow> nat \<Rightarrow> nat option" and cond rd k y
  assume ih: "\<And>cond rd k y. f cond rd k = Some y \<Longrightarrow> k \<le> y \<and> cond (rd y)"
    and eq: "(if cond (rd k) then Some k else f cond rd (Suc k)) = Some y"
  show "k \<le> y \<and> cond (rd y)"
  proof (cases "cond (rd k)")
    case True
    with eq show ?thesis by simp
  next
    case False
    with eq have "f cond rd (Suc k) = Some y" by simp
    from ih[OF this] show ?thesis by simp
  qed
qed

lemma poll_forever_never:
  "poll_forever condition reads 0 = None \<longleftrightarrow> (\<forall>k. \<not> condition (reads k))"
proof
  assume n: "poll_forever condition reads 0 = None"
  show "\<forall>k. \<not> condition (reads k)"
  proof (intro allI notI)
    fix k assume "condition (reads k)"
    then have "condition (reads (0 + k))" by simp
    from poll_forever_found[of condition reads 0 k, OF this] n show False by simp
  qed
next
  assume a: "\<forall>k. \<not> condition (reads k)"
  show "poll_forever condition reads 0 = None"
  proof (cases "poll_forever condition reads 0")
    case (Some r)
    from poll_forever_sound[OF this] a show ?thesis by simp
  qed simp
qed

text \<open>
  C6. For a watcher spawned with an index inside the node slice and a task
  whose timeout is set and is not zero: if one of the polls made before the
  deadline of \<open>timeoutSeconds\<close> seconds reads a state that differs from the
  state at watcher start, or a task-terminal state, the watcher reports
  nothing; otherwise it makes exactly one call to \<open>ReportNodeStatus\<close>, with
  the event type \<open>TimeOut\<close> and the action Failure. With a timeout of zero
  the poll has no deadline: the watcher returns without a report once a poll
  reads a changed or task-terminal state, and never returns, and reports
  nothing, if none does. Whenever the watcher returns, the state (the pool, the
  node slice and all the rest) is as it was.
\<close>

theorem timeout_watcher:
  assumes "i < length (nodes st)" and "TimeOutSeconds (task e) = Some t"
  shows "(t \<noteq> 0 \<longrightarrow>
           handelTimeOutJob c e i st reads final =
             Some (Returns (if \<exists>k < pollCount c (unat t).
                                 State (nodes st ! i) \<noteq> State (reads k) \<or> TaskFinish c (State (reads k))
                            then []
                            else [(Name (task e), NodeName final,
                                   \<lparr>EventType = ''TimeOut'', EventAction = ActionFailure c,
                                    EventErrorMsg = ''node task execution timeout, '' @ ErrWaitTimeout c\<rparr>)],
                            st)))
       \<and> (t = 0 \<longrightarrow>
           handelTimeOutJob c e i st reads final =
             (if \<exists>k. State (nodes st ! i) \<noteq> State (reads k) \<or> TaskFinish c (State (reads k))
              then Some (Returns ([], st)) else None))"
proof (intro conjI impI)
  assume "t \<noteq> 0"
  then have "unat t \<noteq> 0" by (simp add: unat_eq_0)
  with assms show "handelTimeOutJob c e i st reads final =
             Some (Returns (if \<exists>k < pollCount c (unat t).
                                 State (nodes st ! i) \<noteq> State (reads k) \<or> TaskFinish c (State (reads k))
                            then []
                            else [(Name (task e), NodeName final,
                                   \<lparr>EventType = ''TimeOut'', EventAction = ActionFailure c,
                                    EventErrorMsg = ''node task execution timeout, '' @ ErrWaitTimeout c\<rparr>)],
                            st))"
  proof -
    assume u: "unat t \<noteq> 0"
    let ?P = "\<lambda>node. State (nodes st ! i) \<noteq> State node \<or> TaskFinish c (State node)"
    have ex: "(\<exists>x \<in> set (map reads [0..<pollCount c (unat t)]). ?P x) =
        (\<exists>k < pollCount c (unat t). ?P (reads k))"
      by (rule bex_map_upt)
    have "wait_Poll c (unat t) ?P reads =
        Some (if \<exists>k < pollCount c (unat t).
                   State (nodes st ! i) \<noteq> State (reads k) \<or> TaskFinish c (State (reads k))
              then None else Some (ErrWaitTimeout c))"
      unfolding wait_Poll_def poll_deadline_iff ex using u by simp
    with assms show ?thesis
      by (simp add: handelTimeOutJob_def pollTimeout_def Let_def)
  qed
next
  assume t0: "t = 0"
  let ?P = "\<lambda>node. State (nodes st ! i) \<noteq> State node \<or> TaskFinish c (State node)"
  have H: "handelTimeOutJob c e i st reads final =
      (case poll_forever ?P reads 0 of None \<Rightarrow> None | Some k \<Rightarrow> Some (Returns ([], st)))"
    using assms t0
    by (simp add: handelTimeOutJob_def pollTimeout_def wait_Poll_def Let_def split: option.splits)
  show "handelTimeOutJob c e i st reads final =
             (if \<exists>k. ?P (reads k) then Some (Returns ([], st)) else None)"
  proof (cases "poll_forever ?P reads 0")
    case None
    then have "\<not> (\<exists>k. ?P (reads k))"
      unfolding poll_forever_never by blast
    then show ?thesis unfolding H None by (simp only: if_False option.case)
  next
    case (Some r)
    from poll_forever_sound[OF this] have "\<exists>k. ?P (reads k)" by blast
    then show ?thesis unfolding H Some by (simp only: if_True option.case)
  qed
qed

theorem timeout_watcher_witness:
  "(let e = exExecutor ''check'' 1 (Some 2) 1;
        st = initState e [exNode ''a'' []]
    in 0 < length (nodes st) \<and> TimeOutSeconds (task e) = Some 2 \<and> (2 :: 32 word) \<noteq> 0
     \<and> handelTimeOutJob exEnv e 0 st (\<lambda>k. exNode ''a'' []) (exNode ''a'' []) =
         Some (Returns ([(''job'', ''a'', \<lparr>EventType = ''TimeOut'', EventAction = ''Failure'',
                     EventErrorMsg = ''node task execution timeout, timed out waiting for the condition''\<rparr>)], st))
     \<and> handelTimeOutJob exEnv e 0 st (\<lambda>k. exNode ''a'' ''Upgrading'')
           (exNode ''a'' ''Upgrading'') = Some (Returns ([], st)))"
proof -
  define e where "e = exExecutor ''check'' 1 (Some 2) 1"
  define st where "st = initState e [exNode ''a'' []]"
  have h: "0 < length (nodes st)" "TimeOutSeconds (task e) = Some 2"
    by (simp_all add: st_def e_def ex_defs)
  have t: "(2 :: 32 word) \<noteq> 0" by simp
  have "handelTimeOutJob exEnv e 0 st (\<lambda>k. exNode ''a'' []) (exNode ''a'' []) =
         Some (Returns ([(''job'', ''a'', \<lparr>EventType = ''TimeOut'', EventAction = ''Failure'',
                     EventErrorMsg = ''node task execution timeout, timed out waiting for the condition''\<rparr>)], st))"
    using timeout_watcher[OF h, of exEnv "\<lambda>k. exNode ''a'' []" "exNode ''a'' []"] t
    by (simp add: st_def e_def ex_defs)
  moreover
  have "handelTimeOutJob exEnv e 0 st (\<lambda>k. exNode ''a'' ''Upgrading'')
           (exNode ''a'' ''Upgrading'') = Some (Returns ([], st))"
  proof -
    have ex: "\<exists>k < pollCount exEnv (unat (2 :: 32 word)).
        State (nodes st ! 0) \<noteq> State (exNode ''a'' ''Upgrading'')
        \<or> TaskFinish exEnv (State (exNode ''a'' ''Upgrading''))"
      by (intro exI[of _ 0]) (simp add: st_def e_def ex_defs)
    from timeout_watcher[OF h, of exEnv "\<lambda>k. exNode ''a'' ''Upgrading''" "exNode ''a'' ''Upgrading''"] t
    show ?thesis unfolding if_P[OF ex] by blast
  qed
  ultimately show ?thesis
    using h t unfolding Let_def e_def[symmetric] st_def[symmetric] by simp
qed

text \<open>
  A timeout of zero seconds and a node whose state never changes and is not
  task-terminal: the watcher stays in the poll and reports no event.
\<close>

theorem timeout_zero_counterexample:
  "(let e = exExecutor ''check'' 1 (Some 0) 1;
        st = initState e [exNode ''a'' []]
    in handelTimeOutJob exEnv e 0 st (\<lambda>k. exNode ''a'' []) (exNode ''a'' []) = None)"
proof -
  have "poll_forever (\<lambda>node. State (exNode ''a'' []) \<noteq> State node \<or> TaskFinish exEnv (State node))
          (\<lambda>k. exNode ''a'' []) 0 = None"
    by (simp add: poll_forever_never ex_defs)
  then show ?thesis
    by (simp add: handelTimeOutJob_def pollTimeout_def wait_Poll_def Let_def ex_defs)
qed

subsection \<open>Capacity and deadline\<close>

lemma addJob_no_capacity:
  "number (worker st) \<le> 0 \<Longrightarrow> \<exists>msg. addJob c e node i st = Returns (Some msg, st)"
  by (simp add: addJob_def Let_def)

lemma deal_noCapacity:
  "noCapacity st \<Longrightarrow> noCapacity (snd (dealCompletedNode c e m node st))"
  using deal_frame(3,4,5,6)[of c e m node st]
  by (cases "dealCompletedNode c e m node st") (simp add: noCapacity_def)

lemma rangeNodes_noCapacity:
  "rangeNodes c e (dealCompletedNode c e m) idx k ns st = Returns (r, st') \<Longrightarrow> noCapacity st \<Longrightarrow>
   noCapacity st'"
proof (induction ns arbitrary: idx k st)
  case Nil
  then show ?case by simp
next
  case (Cons node rest)
  show ?case
  proof (cases "StageCompleted (controller e) (Name (task e)) (State node)")
    case True
    obtain x st1 where d: "dealCompletedNode c e m node st = (x, st1)"
      by (cases "dealCompletedNode c e m node st")
    from deal_noCapacity[OF Cons.prems(2), of c e m node] d have q: "noCapacity st1" by simp
    show ?thesis
    proof (cases x)
      case None
      with Cons.prems(1) True d
      have "rangeNodes c e (dealCompletedNode c e m) k (Suc k) rest st1 = Returns (r, st')" by simp
      from Cons.IH[OF this q] show ?thesis .
    next
      case (Some msg)
      with Cons.prems(1) True d have "st' = st1" by simp
      with q show ?thesis by simp
    qed
  next
    case False
    from Cons.prems(2) have "number (worker st) \<le> 0" by (simp add: noCapacity_def)
    from addJob_no_capacity[OF this, of c e node k] obtain msg
      where "addJob c e node k st = Returns (Some msg, st)" by blast
    with Cons.prems(1) False have "st' = st" by simp
    with Cons.prems(2) show ?thesis by simp
  qed
qed

lemma loop_noCapacity:
  "loop c e m evs st = Returns (f, st') \<Longrightarrow> noCapacity st \<Longrightarrow> st' = st"
proof (induction c e m evs st rule: loop.induct)
  case (1 c e m st)
  then show ?case by simp
next
  case (2 c e m evs st)
  then show ?case by simp
next
  case (3 c e m status evs st)
  from "3.prems"(2) have "fmlookup (jobs (worker st)) job = None" for job
    by (simp add: noCapacity_def)
  then have h: "handleStatus c e m status st = Returns (Continue, st)"
    by (auto simp: handleStatus_def endJob_def Let_def split: option.splits)
  with "3.prems"(1) have "loop c e m evs st = Returns (f, st')" by simp
  from "3.IH"[OF h refl refl this "3.prems"(2)] show ?case .
qed

lemma start_noCapacity:
  assumes "sint (Concurrency (task e)) \<le> 0" and "start c e ns evs = Returns (f, st')"
  shows "downStream st' = [] \<and> watchers st' = [] \<and> jobs (worker st') = fmempty"
proof -
  have q0: "noCapacity (initState e ns)"
    using assms(1) by (simp add: noCapacity_def initState_def newWorkers_def)
  from assms(2) obtain r st1 where
    iw: "initWorker c e (dealCompletedNode c e (maxFailedNodes e ns)) (initState e ns) = Returns (r, st1)"
    by (auto simp: start_def Let_def split: go.splits)
  then obtain x where
    "rangeNodes c e (dealCompletedNode c e (maxFailedNodes e ns)) 0 0 (nodes (initState e ns)) (initState e ns)
       = Returns (x, st1)"
    by (auto simp: initWorker_def split: go.splits option.splits)
  from rangeNodes_noCapacity[OF this q0] have q1: "noCapacity st1" .
  then have q2: "noCapacity (st1\<lparr>index := j\<rparr>)" for j by (simp add: noCapacity_def)
  from assms(2) iw obtain j where "st' = st1\<lparr>index := j\<rparr> \<or> loop c e (maxFailedNodes e ns) evs (st1\<lparr>index := j\<rparr>) = Returns (f, st')"
    by (cases r) (auto simp: start_def Let_def split: option.splits)
  then have "st' = st1\<lparr>index := j\<rparr>"
    using loop_noCapacity[OF _ q2] by blast
  with q2[of j] show ?thesis by (simp add: noCapacity_def)
qed

text \<open>
  C2. The executor takes both fields as the task message gives them and applies
  no default. The capacity of the pool it creates is \<open>int(concurrency)\<close>: with
  a concurrency of zero (or less) every \<open>addJob\<close> fails, in the new pool and in
  every state of that capacity, and a run of \<open>Executor.start\<close> admits no node
  and sends nothing, whatever reports it receives. A timeout of zero seconds is
  handed to \<open>wait.Poll\<close> as it is, where it means no deadline, not 300
  seconds: the watcher never reports a timeout, and it never returns when the
  node's state does not change and is not task-terminal.
\<close>

theorem executor_takes_fields_as_given:
  "number (worker (initState e ns)) = sint (Concurrency (task e))
   \<and> (sint (Concurrency (task e)) \<le> 0 \<longrightarrow>
         (\<exists>msg. addJob c e node i (initState e ns) = Returns (Some msg, initState e ns))
         \<and> (\<forall>f st'. start c e ns evs = Returns (f, st') \<longrightarrow>
               downStream st' = [] \<and> watchers st' = [] \<and> jobs (worker st') = fmempty))
   \<and> (number (worker st) \<le> 0 \<longrightarrow> (\<exists>msg. addJob c e node i st = Returns (Some msg, st)))
   \<and> (TimeOutSeconds (task e) = Some 0 \<longrightarrow>
         (\<forall>reports st'. handelTimeOutJob c e i st reads final = Some (Returns (reports, st')) \<longrightarrow>
            reports = [])
         \<and> (i < length (nodes st)
              \<and> (\<forall>k. State (reads k) = State (nodes st ! i) \<and> \<not> TaskFinish c (State (reads k))) \<longrightarrow>
              handelTimeOutJob c e i st reads final = None))"
proof (intro conjI impI allI)
  show "number (worker (initState e ns)) = sint (Concurrency (task e))"
    by (simp add: initState_def newWorkers_def)
next
  assume "sint (Concurrency (task e)) \<le> 0"
  then have "number (worker (initState e ns)) \<le> 0" by (simp add: initState_def newWorkers_def)
  then show "\<exists>msg. addJob c e node i (initState e ns) = Returns (Some msg, initState e ns)"
    by (rule addJob_no_capacity)
next
  fix f st'
  assume "sint (Concurrency (task e)) \<le> 0" and "start c e ns evs = Returns (f, st')"
  from start_noCapacity[OF this]
  show "downStream st' = []" and "watchers st' = []" and "jobs (worker st') = fmempty" by simp_all
next
  assume "number (worker st) \<le> 0"
  then show "\<exists>msg. addJob c e node i st = Returns (Some msg, st)" by (rule addJob_no_capacity)
next
  fix reports st'
  assume "TimeOutSeconds (task e) = Some 0"
    and "handelTimeOutJob c e i st reads final = Some (Returns (reports, st'))"
  then show "reports = []"
    by (auto simp: handelTimeOutJob_def pollTimeout_def wait_Poll_def Let_def
          split: if_splits option.splits)
next
  assume t: "TimeOutSeconds (task e) = Some 0"
    and h: "i < length (nodes st)
        \<and> (\<forall>k. State (reads k) = State (nodes st ! i) \<and> \<not> TaskFinish c (State (reads k)))"
  let ?P = "\<lambda>node. State (nodes st ! i) \<noteq> State node \<or> TaskFinish c (State node)"
  from h have "\<forall>k. \<not> ?P (reads k)" by metis
  then have "poll_forever ?P reads 0 = None" using poll_forever_never[of ?P reads] by blast
  with t h show "handelTimeOutJob c e i st reads final = None"
    by (simp add: handelTimeOutJob_def pollTimeout_def wait_Poll_def Let_def)
qed

theorem executor_takes_fields_as_given_witness:
  "(let e = exExecutor ''check'' 0 (Some 0) 1;
        ns = [exNode ''a'' [], exNode ''b'' []];
        st = initState e ns
    in sint (Concurrency (task e)) \<le> 0 \<and> TimeOutSeconds (task e) = Some 0
     \<and> (\<exists>msg. addJob exEnv e (exNode ''a'' []) 0 st = Returns (Some msg, st))
     \<and> (\<exists>f st'. start exEnv e ns [StatusReport (Some (exNode ''a'' ''Successful''))] = Returns (f, st')
            \<and> downStream st' = [] \<and> watchers st' = [] \<and> jobs (worker st') = fmempty)
     \<and> handelTimeOutJob exEnv e 0 st (\<lambda>k. exNode ''a'' []) (exNode ''a'' []) = None)"
proof -
  define e where "e = exExecutor ''check'' 0 (Some 0) 1"
  define ns where "ns = [exNode ''a'' [], exNode ''b'' []]"
  define st where "st = initState e ns"
  let ?evs = "[StatusReport (Some (exNode ''a'' ''Successful''))]"
  have k: "sint (Concurrency (task e)) \<le> 0" and t: "TimeOutSeconds (task e) = Some 0"
    by (simp_all add: e_def ex_defs)
  have "start exEnv e ns ?evs \<noteq> Panics"
    by (simp add: e_def ns_def ex_defs run_defs scan_defs start_def handleStatus_def)
  then obtain f st' where r: "start exEnv e ns ?evs = Returns (f, st')"
    by (cases "start exEnv e ns ?evs") auto
  have q: "0 < length (nodes st)
        \<and> (\<forall>k. State ((\<lambda>k. exNode ''a'' []) k) = State (nodes st ! 0)
               \<and> \<not> TaskFinish exEnv (State ((\<lambda>k. exNode ''a'' []) k)))"
    by (simp add: st_def ns_def e_def ex_defs)
  note T = executor_takes_fields_as_given[of e ns exEnv "exNode ''a'' []" 0 ?evs st
      "\<lambda>k. exNode ''a'' []" "exNode ''a'' []"]
  from T k have a: "\<exists>msg. addJob exEnv e (exNode ''a'' []) 0 st = Returns (Some msg, st)"
    unfolding st_def by blast
  from T k r have b: "downStream st' = [] \<and> watchers st' = [] \<and> jobs (worker st') = fmempty"
    by blast
  from T t q have c: "handelTimeOutJob exEnv e 0 st (\<lambda>k. exNode ''a'' []) (exNode ''a'' []) = None"
    by blast
  from k t a r b c show ?thesis
    unfolding Let_def e_def[symmetric] ns_def[symmetric] st_def[symmetric] by blast
qed

text \<open>
  A task with concurrency 0 and a timeout of 0 seconds: the pool has capacity
  0, \<open>start\<close> admits none of the two nodes and sends nothing, and the watcher
  of a node whose state stays as it was never reports, where a deadline of 300
  seconds would have ended in a \<open>TimeOut\<close> report.
\<close>

theorem defaults_counterexample:
  "(let e = exExecutor ''check'' 0 (Some 0) 1;
        e' = exExecutor ''check'' 0 (Some 300) 1;
        ns = [exNode ''a'' [], exNode ''b'' []];
        st = initState e ns
    in Concurrency (task e) = 0 \<and> TimeOutSeconds (task e) = Some 0
     \<and> number (worker st) = 0
     \<and> start exEnv e ns [] = Returns (Continue, st)
     \<and> downStream st = [] \<and> jobs (worker st) = fmempty
     \<and> handelTimeOutJob exEnv e 0 st (\<lambda>k. exNode ''a'' []) (exNode ''a'' []) = None
     \<and> handelTimeOutJob exEnv e' 0 st (\<lambda>k. exNode ''a'' []) (exNode ''a'' []) =
         Some (Returns ([(''job'', ''a'', \<lparr>EventType = ''TimeOut'', EventAction = ''Failure'',
                     EventErrorMsg = ''node task execution timeout, timed out waiting for the condition''\<rparr>)], st)))"
proof -
  have "poll_forever (\<lambda>node. State (exNode ''a'' []) \<noteq> State node \<or> TaskFinish exEnv (State node))
          (\<lambda>k. exNode ''a'' []) 0 = None"
    by (simp add: poll_forever_never ex_defs)
  then show ?thesis
    by (simp add: handelTimeOutJob_def pollTimeout_def wait_Poll_def poll_deadline_iff
          ex_defs run_defs scan_defs start_def)
qed

subsection \<open>The completion handler and the tolerance threshold\<close>














subsection \<open>The cursor of the stage initialisation\<close>

lemma rangeNodes_append:
  "rangeNodes c e deal idx k (xs @ ys) st =
     (case rangeNodes c e deal idx k xs st of
        Panics \<Rightarrow> Panics
      | Returns ((i, fin, err), st1) \<Rightarrow>
          if fin \<and> err = None then rangeNodes c e deal i (k + length xs) ys st1
          else Returns ((i, fin, err), st1))"
proof (induction xs arbitrary: idx k st)
  case Nil
  then show ?case by simp
next
  case (Cons node rest)
  show ?case
  proof (cases "StageCompleted (controller e) (Name (task e)) (State node)")
    case True
    obtain x st1 where d: "deal node st = (x, st1)" by (cases "deal node st")
    show ?thesis
    proof (cases x)
      case None
      with True d Cons.IH[of k "Suc k" st1] show ?thesis by (simp split: go.splits)
    next
      case (Some msg)
      with True d show ?thesis by simp
    qed
  next
    case False
    show ?thesis
    proof (cases "addJob c e node k st")
      case Panics
      with False show ?thesis by simp
    next
      case (Returns p)
      obtain x st1 where p: "p = (x, st1)" by (cases p)
      show ?thesis
      proof (cases x)
        case None
        with False Returns p Cons.IH[of k "Suc k" st1] show ?thesis by (simp split: go.splits)
      next
        case (Some msg)
        with False Returns p show ?thesis by simp
      qed
    qed
  qed
qed

lemma rangeNodes_error:
  "rangeNodes c e deal idx k ns st = Returns ((i, fin, Some msg), st') \<Longrightarrow>
   i = 0 \<and> (\<exists>j stj i'. j < length ns
      \<and> StageCompleted (controller e) (Name (task e)) (State (ns ! j))
      \<and> rangeNodes c e deal idx k (take j ns) st = Returns ((i', True, None), stj)
      \<and> deal (ns ! j) stj = (Some msg, st'))"
proof (induction ns arbitrary: idx k st)
  case Nil
  then show ?case by simp
next
  case (Cons node rest)
  show ?case
  proof (cases "StageCompleted (controller e) (Name (task e)) (State node)")
    case True
    obtain x st1 where d: "deal node st = (x, st1)" by (cases "deal node st")
    show ?thesis
    proof (cases x)
      case (Some m')
      with Cons.prems True d have r: "i = 0" "m' = msg" "st' = st1" by auto
      show ?thesis
        apply (rule conjI[OF r(1)])
        apply (rule exI[of _ 0], rule exI[of _ st], rule exI[of _ idx])
        using True d Some r by simp
    next
      case None
      with Cons.prems True d
      have rec: "rangeNodes c e deal k (Suc k) rest st1 = Returns ((i, fin, Some msg), st')" by simp
      from Cons.IH[OF rec] obtain j stj i' where i0: "i = 0" and j: "j < length rest"
        "StageCompleted (controller e) (Name (task e)) (State (rest ! j))"
        "rangeNodes c e deal k (Suc k) (take j rest) st1 = Returns ((i', True, None), stj)"
        "deal (rest ! j) stj = (Some msg, st')"
        by blast
      show ?thesis
        apply (rule conjI[OF i0])
        apply (rule exI[of _ "Suc j"], rule exI[of _ stj], rule exI[of _ i'])
        using True d None j by simp
    qed
  next
    case False
    from Cons.prems False obtain x st1 where a: "addJob c e node k st = Returns (x, st1)"
      by (auto split: go.splits)
    show ?thesis
    proof (cases x)
      case (Some m')
      with Cons.prems False a show ?thesis by simp
    next
      case None
      with Cons.prems False a
      have rec: "rangeNodes c e deal k (Suc k) rest st1 = Returns ((i, fin, Some msg), st')" by simp
      from Cons.IH[OF rec] obtain j stj i' where i0: "i = 0" and j: "j < length rest"
        "StageCompleted (controller e) (Name (task e)) (State (rest ! j))"
        "rangeNodes c e deal k (Suc k) (take j rest) st1 = Returns ((i', True, None), stj)"
        "deal (rest ! j) stj = (Some msg, st')"
        by blast
      show ?thesis
        apply (rule conjI[OF i0])
        apply (rule exI[of _ "Suc j"], rule exI[of _ stj], rule exI[of _ i'])
        using False a None j by simp
    qed
  qed
qed

lemma rangeNodes_prefix_error:
  assumes "j < length ns"
    and "StageCompleted (controller e) (Name (task e)) (State (ns ! j))"
    and "rangeNodes c e deal idx k (take j ns) st = Returns ((i', True, None), stj)"
    and "deal (ns ! j) stj = (Some msg, st2)"
  shows "rangeNodes c e deal idx k ns st = Returns ((0, True, Some msg), st2)"
proof -
  have ns: "ns = take j ns @ (ns ! j # drop (Suc j) ns)"
    using assms(1) by (simp add: id_take_nth_drop)
  have "rangeNodes c e deal idx k (take j ns @ (ns ! j # drop (Suc j) ns)) st
      = Returns ((0, True, Some msg), st2)"
    unfolding rangeNodes_append using assms by simp
  with ns show ?thesis by simp
qed

lemma initWorker_scan:
  assumes "nodes st \<noteq> []"
    and "initWorker c e (dealCompletedNode c e m) st = Returns ((cursor, err), st')"
  shows "(err \<noteq> None \<longrightarrow> cursor = 0 \<and> shuttingDown (worker st'))
    \<and> (err = None \<longrightarrow>
         cursor \<le> length (nodes st)
       \<and> (cursor < length (nodes st) \<longrightarrow>
            \<not> StageCompleted (controller e) (Name (task e)) (State (nodes st ! cursor))
            \<and> (shuttingDown (worker st') \<or> number (worker st') \<le> int (len (jobs (worker st')))))
       \<and> watchers st' = watchers st @
            map fst (filter (\<lambda>(j, n). \<not> StageCompleted (controller e) (Name (task e)) (State n))
                      (enumerate 0 (take cursor (nodes st))))
       \<and> failedNodes st' = failedNodes st |\<union>|
            fset_of_list (map NodeName
              (filter (\<lambda>n. StageCompleted (controller e) (Name (task e)) (State n) \<and> State n = TaskFailed c)
                      (take cursor (nodes st)))))"
proof -
  from assms(2) obtain i fin where
    r: "rangeNodes c e (dealCompletedNode c e m) 0 0 (nodes st) st = Returns ((i, fin, err), st')"
    and cu: "cursor = (if err \<noteq> None then 0 else if fin then i + 1 else i)"
    by (auto simp: initWorker_def split: go.splits option.splits if_splits)
  note sc = rangeNodes_scan[OF r]
  show ?thesis
  proof (intro conjI impI)
    show "cursor = 0" if "err \<noteq> None" using cu that by simp
    show "shuttingDown (worker st')" if "err \<noteq> None" using sc that by simp
  next
    assume en: "err = None"
    with sc obtain cur where cur: "cur \<le> length (nodes st)" "fin \<longleftrightarrow> cur = length (nodes st)"
      "fin \<longrightarrow> i = (if nodes st = [] then 0 else 0 + length (nodes st) - 1)"
      "\<not> fin \<longrightarrow> i = 0 + cur
          \<and> \<not> StageCompleted (controller e) (Name (task e)) (State (nodes st ! cur))
          \<and> (shuttingDown (worker st') \<or> number (worker st') \<le> int (len (jobs (worker st'))))"
      "watchers st' = watchers st @
            map fst (filter (\<lambda>(j, n). \<not> StageCompleted (controller e) (Name (task e)) (State n))
                      (enumerate 0 (take cur (nodes st))))"
      "failedNodes st' = failedNodes st |\<union>|
            fset_of_list (map NodeName
              (filter (\<lambda>n. StageCompleted (controller e) (Name (task e)) (State n) \<and> State n = TaskFailed c)
                      (take cur (nodes st))))"
      by blast
    from cu en cur(1-4) assms(1) have eq: "cursor = cur"
      by (cases fin) (auto simp: Suc_pred')
    show "cursor \<le> length (nodes st)" using eq cur(1) by simp
    show "\<not> StageCompleted (controller e) (Name (task e)) (State (nodes st ! cursor))"
      if "cursor < length (nodes st)" using that eq cur(2,4) by auto
    show "shuttingDown (worker st') \<or> number (worker st') \<le> int (len (jobs (worker st')))"
      if "cursor < length (nodes st)" using that eq cur(2,4) by auto
    show "watchers st' = watchers st @
            map fst (filter (\<lambda>(j, n). \<not> StageCompleted (controller e) (Name (task e)) (State n))
                      (enumerate 0 (take cursor (nodes st))))"
      using eq cur(5) by simp
    show "failedNodes st' = failedNodes st |\<union>|
            fset_of_list (map NodeName
              (filter (\<lambda>n. StageCompleted (controller e) (Name (task e)) (State n) \<and> State n = TaskFailed c)
                      (take cursor (nodes st))))"
      using eq cur(6) by simp
  qed
qed

text \<open>
  C3. For a non-empty node slice, \<open>initWorker\<close> with the completion handler
  scans from position 0. When it returns no error, the cursor is at most
  \<open>|nodes|\<close>; the watchers spawned (one per admitted job) are exactly the
  positions below the cursor whose node is not stage-completed, in order; the
  failed set has gained exactly the stage-completed nodes below the cursor
  whose state is the failure state (they went through the handler, not through
  \<open>addJob\<close>); and a cursor below \<open>|nodes|\<close> points at a node that is not
  stage-completed and was refused because the pool is shutting down or full, so
  that a scan without a refused admission ends with the cursor \<open>|nodes|\<close>.
  When it returns an error, the cursor is 0 and there is a stage-completed node
  at some position \<open>j\<close> such that the scan of the nodes before \<open>j\<close> ran to
  its end without a refusal or an error, the handler called on node \<open>j\<close> in
  the state reached there returned that very error with no job in flight, and
  the state returned is the one the handler left: nothing after \<open>j\<close> was
  looked at. Conversely, whenever the scan of the nodes before a
  stage-completed node runs to its end and the handler fails on that node,
  \<open>initWorker\<close> returns the handler's error, the cursor 0 and the handler's
  state.
\<close>

theorem initWorker_cursor:
  assumes "nodes st \<noteq> []"
  shows "(\<forall>cursor err st'.
      initWorker c e (dealCompletedNode c e m) st = Returns ((cursor, err), st') \<longrightarrow>
        (err \<noteq> None \<longrightarrow> cursor = 0 \<and> shuttingDown (worker st')
          \<and> (\<exists>j stj i'. j < length (nodes st)
                \<and> StageCompleted (controller e) (Name (task e)) (State (nodes st ! j))
                \<and> rangeNodes c e (dealCompletedNode c e m) 0 0 (take j (nodes st)) st
                     = Returns ((i', True, None), stj)
                \<and> dealCompletedNode c e m (nodes st ! j) stj = (err, st')
                \<and> len (jobs (worker stj)) = 0
                \<and> watchers stj = watchers st @
                     map fst (filter (\<lambda>(j, n). \<not> StageCompleted (controller e) (Name (task e)) (State n))
                               (enumerate 0 (take j (nodes st))))
                \<and> failedNodes stj = failedNodes st |\<union>|
                     fset_of_list (map NodeName
                       (filter (\<lambda>n. StageCompleted (controller e) (Name (task e)) (State n)
                                    \<and> State n = TaskFailed c)
                               (take j (nodes st))))))
      \<and> (err = None \<longrightarrow>
           cursor \<le> length (nodes st)
         \<and> (cursor < length (nodes st) \<longrightarrow>
              \<not> StageCompleted (controller e) (Name (task e)) (State (nodes st ! cursor))
              \<and> (shuttingDown (worker st') \<or> number (worker st') \<le> int (len (jobs (worker st')))))
         \<and> watchers st' = watchers st @
              map fst (filter (\<lambda>(j, n). \<not> StageCompleted (controller e) (Name (task e)) (State n))
                        (enumerate 0 (take cursor (nodes st))))
         \<and> failedNodes st' = failedNodes st |\<union>|
              fset_of_list (map NodeName
                (filter (\<lambda>n. StageCompleted (controller e) (Name (task e)) (State n) \<and> State n = TaskFailed c)
                        (take cursor (nodes st))))))
    \<and> (\<forall>j stj i' msg st2.
          j < length (nodes st)
          \<and> StageCompleted (controller e) (Name (task e)) (State (nodes st ! j))
          \<and> rangeNodes c e (dealCompletedNode c e m) 0 0 (take j (nodes st)) st
               = Returns ((i', True, None), stj)
          \<and> dealCompletedNode c e m (nodes st ! j) stj = (Some msg, st2) \<longrightarrow>
          initWorker c e (dealCompletedNode c e m) st = Returns ((0, Some msg), st2))"
proof (intro conjI allI impI)
  fix cursor err st'
  assume r: "initWorker c e (dealCompletedNode c e m) st = Returns ((cursor, err), st')"
  note old = initWorker_scan[OF assms r]
  {
    assume en: "err = None"
    from old en show "cursor \<le> length (nodes st)" by blast
    from old en show "watchers st' = watchers st @
              map fst (filter (\<lambda>(j, n). \<not> StageCompleted (controller e) (Name (task e)) (State n))
                        (enumerate 0 (take cursor (nodes st))))" by blast
    from old en show "failedNodes st' = failedNodes st |\<union>|
              fset_of_list (map NodeName
                (filter (\<lambda>n. StageCompleted (controller e) (Name (task e)) (State n) \<and> State n = TaskFailed c)
                        (take cursor (nodes st))))" by blast
    assume "cursor < length (nodes st)"
    with old en show "\<not> StageCompleted (controller e) (Name (task e)) (State (nodes st ! cursor))"
      and "shuttingDown (worker st') \<or> number (worker st') \<le> int (len (jobs (worker st')))"
      by blast+
  }
  assume ne: "err \<noteq> None"
  from old ne show "cursor = 0" and "shuttingDown (worker st')" by blast+
  from ne obtain msg where msg: "err = Some msg" by (cases err) auto
  from r msg obtain i fin where
    rn: "rangeNodes c e (dealCompletedNode c e m) 0 0 (nodes st) st = Returns ((i, fin, Some msg), st')"
    by (auto simp: initWorker_def split: go.splits option.splits)
  from rangeNodes_error[OF rn] obtain j stj i' where j: "j < length (nodes st)"
    "StageCompleted (controller e) (Name (task e)) (State (nodes st ! j))"
    "rangeNodes c e (dealCompletedNode c e m) 0 0 (take j (nodes st)) st = Returns ((i', True, None), stj)"
    "dealCompletedNode c e m (nodes st ! j) stj = (Some msg, st')"
    by blast
  from rangeNodes_scan[OF j(3)] obtain cur where cur: "cur \<le> length (take j (nodes st))"
    "True \<longleftrightarrow> cur = length (take j (nodes st))"
    "watchers stj = watchers st @
        map fst (filter (\<lambda>(j, n). \<not> StageCompleted (controller e) (Name (task e)) (State n))
                  (enumerate 0 (take cur (take j (nodes st)))))"
    "failedNodes stj = failedNodes st |\<union>|
        fset_of_list (map NodeName
          (filter (\<lambda>n. StageCompleted (controller e) (Name (task e)) (State n) \<and> State n = TaskFailed c)
                  (take cur (take j (nodes st)))))"
    by blast
  from cur(2) j(1) have cj: "cur = j" by simp
  from deal_frame(8)[OF j(4)] have empty: "len (jobs (worker stj)) = 0" by simp
  show "\<exists>j stj i'. j < length (nodes st)
                \<and> StageCompleted (controller e) (Name (task e)) (State (nodes st ! j))
                \<and> rangeNodes c e (dealCompletedNode c e m) 0 0 (take j (nodes st)) st
                     = Returns ((i', True, None), stj)
                \<and> dealCompletedNode c e m (nodes st ! j) stj = (err, st')
                \<and> len (jobs (worker stj)) = 0
                \<and> watchers stj = watchers st @
                     map fst (filter (\<lambda>(j, n). \<not> StageCompleted (controller e) (Name (task e)) (State n))
                               (enumerate 0 (take j (nodes st))))
                \<and> failedNodes stj = failedNodes st |\<union>|
                     fset_of_list (map NodeName
                       (filter (\<lambda>n. StageCompleted (controller e) (Name (task e)) (State n)
                                    \<and> State n = TaskFailed c)
                               (take j (nodes st))))"
    apply (rule exI[of _ j], rule exI[of _ stj], rule exI[of _ i'])
    using j msg empty cur(3,4) unfolding cj by simp
next
  fix j stj i' msg st2
  assume a: "j < length (nodes st)
          \<and> StageCompleted (controller e) (Name (task e)) (State (nodes st ! j))
          \<and> rangeNodes c e (dealCompletedNode c e m) 0 0 (take j (nodes st)) st
               = Returns ((i', True, None), stj)
          \<and> dealCompletedNode c e m (nodes st ! j) stj = (Some msg, st2)"
  then have "rangeNodes c e (dealCompletedNode c e m) 0 0 (nodes st) st = Returns ((0, True, Some msg), st2)"
    by (intro rangeNodes_prefix_error[where j = j and i' = i' and stj = stj]) simp_all
  then show "initWorker c e (dealCompletedNode c e m) st = Returns ((0, Some msg), st2)"
    by (simp add: initWorker_def)
qed

text \<open>
  One node that is already stage-completed and a tolerance of 0: the handler
  fails on it, and the scan of the whole slice, in which no admission failed,
  returns the cursor 0 where the slice has length 1.
\<close>

theorem initWorker_cursor_counterexample:
  "(let e = exExecutor ''check'' 1 (Some 2) 0;
        ns = [exNode ''a'' ''Successful'']
    in \<exists>msg st'. initWorker exEnv e (dealCompletedNode exEnv e (maxFailedNodes e ns)) (initState e ns)
                    = Returns ((0, Some msg), st')
          \<and> watchers st' = [] \<and> downStream st' = [] \<and> length ns = 1)"
  by (simp add: ex_defs run_defs scan_defs)

theorem initWorker_cursor_witness:
  "(let e = exExecutor ''check'' 2 (Some 2) 1;
        ns = [exNode ''a'' [], exNode ''b'' ''Failed'', exNode ''c'' [], exNode ''d'' []];
        st = initState e ns;
        e' = exExecutor ''check'' 2 (Some 2) 0;
        ns' = [exNode ''a'' ''Successful'', exNode ''b'' []];
        st' = initState e' ns'
    in nodes st \<noteq> []
     \<and> (\<exists>st2. initWorker exEnv e (dealCompletedNode exEnv e (maxFailedNodes e ns)) st
                 = Returns ((3, None), st2)
            \<and> watchers st2 = [0, 2] \<and> failedNodes st2 = {|''b''|}
            \<and> number (worker st2) \<le> int (len (jobs (worker st2))))
     \<and> nodes st' \<noteq> []
     \<and> dealCompletedNode exEnv e' (maxFailedNodes e' ns') (nodes st' ! 0) st' =
          (Some ''the number of failed nodes is 0/2, which exceeds the failure tolerance threshold.'',
           snd (dealCompletedNode exEnv e' (maxFailedNodes e' ns') (nodes st' ! 0) st'))
     \<and> initWorker exEnv e' (dealCompletedNode exEnv e' (maxFailedNodes e' ns')) st' =
          Returns ((0, Some ''the number of failed nodes is 0/2, which exceeds the failure tolerance threshold.''),
                   snd (dealCompletedNode exEnv e' (maxFailedNodes e' ns') (nodes st' ! 0) st')))"
proof -
  define e where "e = exExecutor ''check'' 2 (Some 2) 1"
  define ns where "ns = [exNode ''a'' [], exNode ''b'' ''Failed'', exNode ''c'' [], exNode ''d'' []]"
  define st where "st = initState e ns"
  define e' where "e' = exExecutor ''check'' 2 (Some 2) 0"
  define ns' where "ns' = [exNode ''a'' ''Successful'', exNode ''b'' []]"
  define st' where "st' = initState e' ns'"
  have ne: "nodes st \<noteq> []" by (simp add: st_def ns_def initState_def)
  have ne': "nodes st' \<noteq> []" by (simp add: st'_def ns'_def initState_def)
  have "\<exists>st2. initWorker exEnv e (dealCompletedNode exEnv e (maxFailedNodes e ns)) st = Returns ((3, None), st2)"
    by (simp add: st_def ns_def e_def ex_defs run_defs scan_defs)
  then obtain st2 where
    r: "initWorker exEnv e (dealCompletedNode exEnv e (maxFailedNodes e ns)) st = Returns ((3, None), st2)"
    by blast
  have n: "nodes st = ns" by (simp add: st_def initState_def)
  have c3: "(3::nat) < length (nodes st)" by (simp add: n ns_def)
  have nd: "\<not> shuttingDown (worker st2)"
    using r by (auto simp add: st_def ns_def e_def ex_defs run_defs scan_defs)
  from initWorker_cursor[OF ne, of exEnv e "maxFailedNodes e ns", THEN conjunct1, rule_format, OF r,
      THEN conjunct2, rule_format, OF refl] c3 nd
  have "number (worker st2) \<le> int (len (jobs (worker st2)))"
    and "watchers st2 = watchers st @
            map fst (filter (\<lambda>(j, n). \<not> StageCompleted (controller e) (Name (task e)) (State n))
                      (enumerate 0 (take 3 (nodes st))))"
    and "failedNodes st2 = failedNodes st |\<union>|
            fset_of_list (map NodeName
              (filter (\<lambda>n. StageCompleted (controller e) (Name (task e)) (State n) \<and> State n = TaskFailed exEnv)
                      (take 3 (nodes st))))"
    by simp_all
  then have p: "number (worker st2) \<le> int (len (jobs (worker st2)))" "watchers st2 = [0, 2]"
    "failedNodes st2 = {|''b''|}"
    by (simp_all add: n st_def ns_def e_def ex_defs)
  let ?msg = "''the number of failed nodes is 0/2, which exceeds the failure tolerance threshold.''"
  let ?d = "dealCompletedNode exEnv e' (maxFailedNodes e' ns') (nodes st' ! 0) st'"
  have d: "?d = (Some ?msg, snd ?d)"
    by (simp add: st'_def ns'_def e'_def ex_defs scan_defs Let_def len_fmempty fcard_fempty
          Itoa_def digits.simps)
  have pre: "0 < length (nodes st')
      \<and> StageCompleted (controller e') (Name (task e')) (State (nodes st' ! 0))
      \<and> rangeNodes exEnv e' (dealCompletedNode exEnv e' (maxFailedNodes e' ns')) 0 0 (take 0 (nodes st')) st'
           = Returns ((0, True, None), st')
      \<and> ?d = (Some ?msg, snd ?d)"
    using d by (simp add: st'_def ns'_def e'_def ex_defs)
  from initWorker_cursor[OF ne', of exEnv e' "maxFailedNodes e' ns'", THEN conjunct2, rule_format, OF pre]
  have q: "initWorker exEnv e' (dealCompletedNode exEnv e' (maxFailedNodes e' ns')) st' =
          Returns ((0, Some ?msg), snd ?d)" .
  from ne r p ne' d q show ?thesis
    unfolding Let_def e_def[symmetric] ns_def[symmetric] st_def[symmetric]
      e'_def[symmetric] ns'_def[symmetric] st'_def[symmetric]
    by blast
qed

end
